theory Spec2Isabelle
  imports Main
begin

section \<open>JavaScript strings and the regular expressions of the sources\<close>

text \<open>
  A JavaScript string is a sequence of UTF-16 code units. A code unit is modelled as a
  natural number (every code unit is below 65536; nothing below depends on that bound),
  so a theorem about every \<open>jsstring\<close> covers every JavaScript string.
  \<open>js ''...''\<close> is the string of an ASCII literal.
\<close>

type_synonym jschar = nat
type_synonym jsstring = "jschar list"

abbreviation (input) ch :: "char \<Rightarrow> jschar" where
  "ch c \<equiv> of_char c"

definition js :: "string \<Rightarrow> jsstring" where
  "js cs = map of_char cs"

abbreviation (input) dquote :: jschar where "dquote \<equiv> 34"
abbreviation (input) squote :: jschar where "squote \<equiv> 39"
abbreviation (input) backslash :: jschar where "backslash \<equiv> 92"
abbreviation (input) backtick :: jschar where "backtick \<equiv> 96"
abbreviation (input) newline :: jschar where "newline \<equiv> 10"

text \<open>
  The class \<open>\s\<close> of a JavaScript regular expression, which is also what
  \<open>String.prototype.trim\<close> removes: WhiteSpace and LineTerminator.
\<close>

definition is_space :: "jschar \<Rightarrow> bool" where
  "is_space c =
     (c = 9 \<or> c = 10 \<or> c = 11 \<or> c = 12 \<or> c = 13 \<or> c = 32 \<or> c = 160 \<or> c = 5760 \<or>
      (8192 \<le> c \<and> c \<le> 8202) \<or> c = 8232 \<or> c = 8233 \<or> c = 8239 \<or> c = 8287 \<or>
      c = 12288 \<or> c = 65279)"

definition is_digit :: "jschar \<Rightarrow> bool" where
  "is_digit c = (48 \<le> c \<and> c \<le> 57)"

text \<open>The class \<open>[\w$_]\<close>: ASCII letters, digits, underscore and dollar.\<close>

definition is_key_char :: "jschar \<Rightarrow> bool" where
  "is_key_char c =
     ((65 \<le> c \<and> c \<le> 90) \<or> (97 \<le> c \<and> c \<le> 122) \<or> is_digit c \<or> c = 95 \<or> c = 36)"

definition trim :: "jsstring \<Rightarrow> jsstring" where
  "trim s = rev (dropWhile is_space (rev (dropWhile is_space s)))"

text \<open>\<open>s.slice(a, b)\<close> for \<open>0 \<le> a\<close>.\<close>

definition slice :: "jsstring \<Rightarrow> nat \<Rightarrow> nat \<Rightarrow> jsstring" where
  "slice s a b = take (b - a) (drop a s)"

text \<open>
  \<open>s.replace(re, replacement)\<close> for a regular expression with the \<open>g\<close> flag. The
  matcher \<open>m\<close> is the regular expression tried at the start of its argument: it gives
  the replacement text and the input left after the match. Matches are sought from left
  to right; where there is none the character is kept; after an empty match the next
  character is kept too. None of the expressions below matches the empty string.
\<close>

function replaceAll :: "(jsstring \<Rightarrow> (jsstring \<times> jsstring) option) \<Rightarrow> jsstring \<Rightarrow> jsstring" where
  "replaceAll m [] = []"
| "replaceAll m (c # cs) =
     (case m (c # cs) of
        None \<Rightarrow> c # replaceAll m cs
      | Some (rep, rest) \<Rightarrow>
          if length rest < length (c # cs) then rep @ replaceAll m rest
          else rep @ c # replaceAll m cs)"
  by pat_completeness auto
termination
  by (relation "measure (\<lambda>(m, s). length s)") auto

definition fence :: jsstring where
  "fence = [backtick, backtick, backtick]"

subsection \<open>extract.ts\<close>

text \<open>
  The tail \<open>([\s\S]*?)\n?```\<close> of the fence expression of \<open>stripMd\<close>: the lazy group
  ends at the first position where an optional newline and a closing fence follow. The
  result is the captured group and the input after the closing fence.
\<close>

fun until_fence :: "jsstring \<Rightarrow> (jsstring \<times> jsstring) option" where
  "until_fence [] = None"
| "until_fence (c # cs) =
     (if c = newline \<and> take 3 cs = fence then Some ([], drop 3 cs)
      else if take 3 (c # cs) = fence then Some ([], drop 2 cs)
      else (case until_fence cs of
              None \<Rightarrow> None
            | Some (body, rest) \<Rightarrow> Some (c # body, rest)))"

text \<open>
  \<open>/```(?:json)?\s*\n?([\s\S]*?)\n?```/\<close> with replacement \<open>$1\<close>. The greedy prefix
  (the language tag, then all whitespace) consumes no backtick, so giving part of it back
  never makes a closing fence appear: the expression matches exactly when the greedy
  choice does.
\<close>

definition re_md_fence :: "jsstring \<Rightarrow> (jsstring \<times> jsstring) option" where
  "re_md_fence s =
     (if take 3 s = fence then
        (let s1 = drop 3 s;
             s2 = (if take 4 s1 = js ''json'' then drop 4 s1 else s1)
         in until_fence (dropWhile is_space s2))
      else None)"

definition stripMd :: "jsstring \<Rightarrow> jsstring" where
  "stripMd s = trim (replaceAll re_md_fence s)"

text \<open>The local variables of \<open>findJson\<close>.\<close>

record find_state =
  f_depth :: int
  f_inStr :: bool
  f_esc :: bool
  f_start :: int
  f_results :: "jsstring list"
  f_positions :: "(nat \<times> nat) list"

text \<open>
  One iteration of the loop of \<open>findJson\<close> at index \<open>i < s.length\<close>: the new state,
  and whether the loop was left by \<open>break\<close>.
\<close>

definition findJson_body :: "jsstring \<Rightarrow> bool \<Rightarrow> nat \<Rightarrow> find_state \<Rightarrow> find_state \<times> bool" where
  "findJson_body s all i st =
     (let c = s ! i in
      if f_esc st then (st\<lparr>f_esc := False\<rparr>, False)
      else if c = backslash \<and> f_inStr st then (st\<lparr>f_esc := True\<rparr>, False)
      else if c = dquote then (st\<lparr>f_inStr := \<not> f_inStr st\<rparr>, False)
      else if f_inStr st then (st, False)
      else if c = ch CHR ''{'' \<or> c = ch CHR ''['' then
        ((if f_depth st = 0 then st\<lparr>f_start := int i\<rparr> else st)\<lparr>f_depth := f_depth st + 1\<rparr>,
         False)
      else if c = ch CHR ''}'' \<or> c = ch CHR '']'' then
        (let st1 = st\<lparr>f_depth := f_depth st - 1\<rparr> in
         if f_depth st1 = 0 \<and> f_start st1 \<ge> 0 then
           (st1\<lparr>f_results := f_results st1 @ [slice s (nat (f_start st1)) (i + 1)],
                f_positions := f_positions st1 @ [(nat (f_start st1), i + 1)]\<rparr>,
            \<not> all)
         else (st1, False))
      else (st, False))"

function findJson_loop :: "jsstring \<Rightarrow> bool \<Rightarrow> nat \<Rightarrow> find_state \<Rightarrow> find_state" where
  "findJson_loop s all i st =
     (if i < length s then
        (case findJson_body s all i st of
           (st', brk) \<Rightarrow> if brk then st' else findJson_loop s all (i + 1) st')
      else st)"
  by pat_completeness auto
termination
  by (relation "measure (\<lambda>(s, all, i, st). length s - i)") auto

declare findJson_loop.simps [simp del]

record extract_result =
  json :: "jsstring option"
  start_pos :: nat
  end_pos :: nat
  multiple :: "jsstring list option"

definition findJson :: "jsstring \<Rightarrow> bool \<Rightarrow> extract_result" where
  "findJson s all =
     (let st = findJson_loop s all 0
                 \<lparr>f_depth = 0, f_inStr = False, f_esc = False, f_start = - 1,
                  f_results = [], f_positions = []\<rparr>
      in case f_results st of
           [] \<Rightarrow> \<lparr>json = None, start_pos = 0, end_pos = 0, multiple = Some []\<rparr>
         | r # _ \<Rightarrow>
             \<lparr>json = Some r, start_pos = fst (hd (f_positions st)),
              end_pos = snd (hd (f_positions st)), multiple = Some (f_results st)\<rparr>)"

definition extract_json :: "jsstring \<Rightarrow> extract_result" where
  "extract_json input =
     (if input = [] then \<lparr>json = None, start_pos = 0, end_pos = 0, multiple = None\<rparr>
      else findJson (stripMd input) False)"

definition extractAll :: "jsstring \<Rightarrow> extract_result" where
  "extractAll input =
     (if input = [] then \<lparr>json = None, start_pos = 0, end_pos = 0, multiple = Some []\<rparr>
      else findJson (stripMd input) True)"


subsection \<open>Strict JSON: the built-in \<open>JSON.parse\<close>\<close>

text \<open>
  The values of JavaScript that the parsers build. A number is kept as the text of its
  literal: the conversion of that text to a double is not modelled, so two \<open>JNum\<close> of
  different texts are never identified, and nothing below relies on two numbers being
  different. A string value is the sequence of its code units. An object is the list of
  its own properties in insertion order.
\<close>

datatype json =
    JNull
  | JBool bool
  | JNum jsstring
  | JStr jsstring
  | JArr "json list"
  | JObj "(jsstring \<times> json) list"

text \<open>
  An object is the list of its own properties, in the order in which the engine lists
  them (\<open>Object.entries\<close>): the keys that are array indices in ascending order, then
  the other keys in the order of their creation. An array index is the canonical decimal
  text of an integer from 0 to \<open>2\<^sup>3\<^sup>2 - 2\<close>.
\<close>

definition digits_value :: "jsstring \<Rightarrow> int" where
  "digits_value ds = foldl (\<lambda>a c. 10 * a + (int c - 48)) 0 ds"

definition array_index :: "jsstring \<Rightarrow> int option" where
  "array_index k =
     (if k = [48] then Some 0
      else if k \<noteq> [] \<and> hd k \<noteq> 48 \<and> list_all is_digit k \<and> length k \<le> 10 \<and>
              digits_value k < 4294967295
      then Some (digits_value k)
      else None)"

definition index_before :: "jsstring \<Rightarrow> jsstring \<Rightarrow> bool" where
  "index_before k k' =
     (case array_index k of
        None \<Rightarrow> False
      | Some a \<Rightarrow> (case array_index k' of None \<Rightarrow> True | Some b \<Rightarrow> a < b))"

fun create_property ::
  "jsstring \<Rightarrow> json \<Rightarrow> (jsstring \<times> json) list \<Rightarrow> (jsstring \<times> json) list" where
  "create_property k v [] = [(k, v)]"
| "create_property k v ((k', v') # kvs) =
     (if index_before k k' then (k, v) # (k', v') # kvs
      else (k', v') # create_property k v kvs)"

text \<open>
  Defining the property \<open>k\<close> with the value \<open>v\<close>: an existing property keeps its place
  and takes the new value, a new one is created.
\<close>

definition assign :: "jsstring \<Rightarrow> json \<Rightarrow> (jsstring \<times> json) list \<Rightarrow> (jsstring \<times> json) list" where
  "assign k v kvs =
     (if k \<in> fst ` set kvs then map (\<lambda>(k', v'). if k' = k then (k, v) else (k', v')) kvs
      else create_property k v kvs)"

text \<open>The exceptions of the sources, and a computation that returns or throws.\<close>

datatype exn =
    SyntaxError
  | TypeError
  | Error jsstring

datatype 'a outcome =
    Return 'a
  | Throw exn

text \<open>
  The grammar of ECMA-404, which \<open>JSON.parse\<close> accepts. Whitespace is tab, line feed,
  carriage return and space.
\<close>

definition is_json_ws :: "jschar \<Rightarrow> bool" where
  "is_json_ws c = (c = 9 \<or> c = 10 \<or> c = 13 \<or> c = 32)"

definition hex_digit :: "jschar \<Rightarrow> nat option" where
  "hex_digit c =
     (if 48 \<le> c \<and> c \<le> 57 then Some (c - 48)
      else if 65 \<le> c \<and> c \<le> 70 then Some (c - 55)
      else if 97 \<le> c \<and> c \<le> 102 then Some (c - 87)
      else None)"

definition hex4 :: "jschar \<Rightarrow> jschar \<Rightarrow> jschar \<Rightarrow> jschar \<Rightarrow> jschar option" where
  "hex4 a b c d =
     (case (hex_digit a, hex_digit b, hex_digit c, hex_digit d) of
        (Some x, Some y, Some z, Some w) \<Rightarrow> Some (((x * 16 + y) * 16 + z) * 16 + w)
      | _ \<Rightarrow> None)"

definition simple_escape :: "jschar \<Rightarrow> jschar option" where
  "simple_escape c =
     (if c = dquote \<or> c = backslash \<or> c = ch CHR ''/'' then Some c
      else if c = ch CHR ''b'' then Some 8
      else if c = ch CHR ''f'' then Some 12
      else if c = ch CHR ''n'' then Some 10
      else if c = ch CHR ''r'' then Some 13
      else if c = ch CHR ''t'' then Some 9
      else None)"

text \<open>
  A string literal after its opening quote: the decoded value and the input after the
  closing quote.
\<close>

function json_string :: "jsstring \<Rightarrow> (jsstring \<times> jsstring) option" where
  "json_string [] = None"
| "json_string (c # cs) =
     (if c = dquote then Some ([], cs)
      else if c = backslash then
        (case cs of
           [] \<Rightarrow> None
         | e # es \<Rightarrow>
             if e = ch CHR ''u'' then
               (case es of
                  h1 # h2 # h3 # h4 # rest \<Rightarrow>
                    (case hex4 h1 h2 h3 h4 of
                       None \<Rightarrow> None
                     | Some u \<Rightarrow>
                         (case json_string rest of
                            None \<Rightarrow> None
                          | Some (v, rest') \<Rightarrow> Some (u # v, rest')))
                | _ \<Rightarrow> None)
             else
               (case simple_escape e of
                  None \<Rightarrow> None
                | Some d \<Rightarrow>
                    (case json_string es of
                       None \<Rightarrow> None
                     | Some (v, rest') \<Rightarrow> Some (d # v, rest'))))
      else if c < 32 then None
      else (case json_string cs of
              None \<Rightarrow> None
            | Some (v, rest') \<Rightarrow> Some (c # v, rest')))"
  by pat_completeness auto
termination
  by (relation "measure length") auto

text \<open>
  A number literal: its text and the input after it. The integer part is \<open>0\<close> or starts
  with a digit from 1 to 9; a fraction and an exponent need a digit each.
\<close>

definition json_digits :: "jsstring \<Rightarrow> (jsstring \<times> jsstring) option" where
  "json_digits s =
     (let ds = takeWhile is_digit s in
      if ds = [] then None else Some (ds, dropWhile is_digit s))"

definition json_int :: "jsstring \<Rightarrow> (jsstring \<times> jsstring) option" where
  "json_int s =
     (case s of
        [] \<Rightarrow> None
      | c # cs \<Rightarrow>
          if c = ch CHR ''0'' then Some ([c], cs)
          else if is_digit c then Some (c # takeWhile is_digit cs, dropWhile is_digit cs)
          else None)"

definition json_frac :: "jsstring \<Rightarrow> (jsstring \<times> jsstring) option" where
  "json_frac s =
     (case s of
        c # cs \<Rightarrow>
          if c = ch CHR ''.'' then
            (case json_digits cs of None \<Rightarrow> None | Some (ds, rest) \<Rightarrow> Some (c # ds, rest))
          else Some ([], s)
      | [] \<Rightarrow> Some ([], s))"

definition json_exp :: "jsstring \<Rightarrow> (jsstring \<times> jsstring) option" where
  "json_exp s =
     (case s of
        c # cs \<Rightarrow>
          if c = ch CHR ''e'' \<or> c = ch CHR ''E'' then
            (let sign = (case cs of
                           d # _ \<Rightarrow> if d = ch CHR ''+'' \<or> d = ch CHR ''-'' then [d] else []
                         | [] \<Rightarrow> [])
             in case json_digits (drop (length sign) cs) of
                  None \<Rightarrow> None
                | Some (ds, rest) \<Rightarrow> Some (c # sign @ ds, rest))
          else Some ([], s)
      | [] \<Rightarrow> Some ([], s))"

definition json_number :: "jsstring \<Rightarrow> (jsstring \<times> jsstring) option" where
  "json_number s =
     (let (minus, s0) = (case s of
                           c # cs \<Rightarrow> if c = ch CHR ''-'' then ([c], cs) else ([], s)
                         | [] \<Rightarrow> ([], s))
      in case json_int s0 of
           None \<Rightarrow> None
         | Some (ip, s1) \<Rightarrow>
             (case json_frac s1 of
                None \<Rightarrow> None
              | Some (fp, s2) \<Rightarrow>
                  (case json_exp s2 of
                     None \<Rightarrow> None
                   | Some (ep, s3) \<Rightarrow> Some (minus @ ip @ fp @ ep, s3))))"

text \<open>
  The recursive descent over values, the elements of an array and the members of an
  object. The first argument bounds the depth of the recursion; \<open>JSON_parse\<close> starts it
  with more than any input needs (\<open>json_value_fuel\<close> below).
\<close>

function (sequential) json_value :: "nat \<Rightarrow> jsstring \<Rightarrow> (json \<times> jsstring) option"
  and json_elements :: "nat \<Rightarrow> jsstring \<Rightarrow> json list \<Rightarrow> (json list \<times> jsstring) option"
  and json_members ::
    "nat \<Rightarrow> jsstring \<Rightarrow> (jsstring \<times> json) list \<Rightarrow> ((jsstring \<times> json) list \<times> jsstring) option"
where
  "json_value 0 s = None"
| "json_value (Suc n) s =
     (case dropWhile is_json_ws s of
        [] \<Rightarrow> None
      | c # cs \<Rightarrow>
          if c = ch CHR ''{'' then
            (case dropWhile is_json_ws cs of
               [] \<Rightarrow> None
             | c2 # cs2 \<Rightarrow>
                 if c2 = ch CHR ''}'' then Some (JObj [], cs2)
                 else (case json_members n cs [] of
                         None \<Rightarrow> None
                       | Some (kvs, rest) \<Rightarrow> Some (JObj kvs, rest)))
          else if c = ch CHR ''['' then
            (case dropWhile is_json_ws cs of
               [] \<Rightarrow> None
             | c2 # cs2 \<Rightarrow>
                 if c2 = ch CHR '']'' then Some (JArr [], cs2)
                 else (case json_elements n cs [] of
                         None \<Rightarrow> None
                       | Some (vs, rest) \<Rightarrow> Some (JArr vs, rest)))
          else if c = dquote then
            (case json_string cs of
               None \<Rightarrow> None
             | Some (v, rest) \<Rightarrow> Some (JStr v, rest))
          else if c = ch CHR ''-'' \<or> is_digit c then
            (case json_number (c # cs) of
               None \<Rightarrow> None
             | Some (num, rest) \<Rightarrow> Some (JNum num, rest))
          else if take 4 (c # cs) = js ''true'' then Some (JBool True, drop 4 (c # cs))
          else if take 5 (c # cs) = js ''false'' then Some (JBool False, drop 5 (c # cs))
          else if take 4 (c # cs) = js ''null'' then Some (JNull, drop 4 (c # cs))
          else None)"
| "json_elements 0 s vs = None"
| "json_elements (Suc n) s vs =
     (case json_value n s of
        None \<Rightarrow> None
      | Some (v, rest) \<Rightarrow>
          (case dropWhile is_json_ws rest of
             [] \<Rightarrow> None
           | c # cs \<Rightarrow>
               if c = ch CHR '','' then json_elements n cs (vs @ [v])
               else if c = ch CHR '']'' then Some (vs @ [v], cs)
               else None))"
| "json_members 0 s kvs = None"
| "json_members (Suc n) s kvs =
     (case dropWhile is_json_ws s of
        [] \<Rightarrow> None
      | q # s1 \<Rightarrow>
          if q = dquote then
            (case json_string s1 of
               None \<Rightarrow> None
             | Some (k, s2) \<Rightarrow>
                 (case dropWhile is_json_ws s2 of
                    [] \<Rightarrow> None
                  | c # s3 \<Rightarrow>
                      if c = ch CHR '':'' then
                        (case json_value n s3 of
                           None \<Rightarrow> None
                         | Some (v, s4) \<Rightarrow>
                             (case dropWhile is_json_ws s4 of
                                [] \<Rightarrow> None
                              | d # s5 \<Rightarrow>
                                  if d = ch CHR '','' then json_members n s5 (assign k v kvs)
                                  else if d = ch CHR ''}'' then Some (assign k v kvs, s5)
                                  else None))
                      else None))
          else None)"
  by pat_completeness auto
termination
  by (relation "measure (\<lambda>x. case x of
          Inl (n, _) \<Rightarrow> n
        | Inr (Inl (n, _)) \<Rightarrow> n
        | Inr (Inr (n, _)) \<Rightarrow> n)") auto

definition JSON_parse :: "jsstring \<Rightarrow> json outcome" where
  "JSON_parse text =
     (case json_value (2 * length text + 2) text of
        None \<Rightarrow> Throw SyntaxError
      | Some (v, rest) \<Rightarrow>
          if dropWhile is_json_ws rest = [] then Return v else Throw SyntaxError)"


subsection \<open>repair.ts\<close>

datatype warning_code =
    trailing_comma_removed
  | single_quotes_replaced
  | unquoted_key_fixed
  | missing_comma_added
  | markdown_fence_stripped
  | prose_stripped
  | python_literal_converted
  | truncated_string_closed
  | unescaped_quote_fixed

datatype warning = Warning (wcode: warning_code) (wmessage: jsstring)

record repair_result =
  output_text :: jsstring
  warnings :: "warning list"
  valid :: bool

text \<open>A character compared without regard to case against a lower-case ASCII letter.\<close>

definition ci_eq :: "jschar \<Rightarrow> jschar \<Rightarrow> bool" where
  "ci_eq c l = (c = l \<or> c + 32 = l)"

text \<open>\<open>/```json?\s*\n?/gi\<close>, replaced by the empty string.\<close>

definition re_fence_open :: "jsstring \<Rightarrow> (jsstring \<times> jsstring) option" where
  "re_fence_open s =
     (case s of
        b1 # b2 # b3 # c1 # c2 # c3 # rest \<Rightarrow>
          if [b1, b2, b3] = fence \<and> ci_eq c1 (ch CHR ''j'') \<and> ci_eq c2 (ch CHR ''s'') \<and>
             ci_eq c3 (ch CHR ''o'')
          then Some ([], dropWhile is_space
                           (case rest of
                              [] \<Rightarrow> []
                            | c4 # rest' \<Rightarrow> if ci_eq c4 (ch CHR ''n'') then rest' else rest))
          else None
      | _ \<Rightarrow> None)"

text \<open>\<open>/```\s*$/g\<close>, replaced by the empty string: a fence with only whitespace after it.\<close>

definition re_fence_end :: "jsstring \<Rightarrow> (jsstring \<times> jsstring) option" where
  "re_fence_end s =
     (if take 3 s = fence \<and> dropWhile is_space (drop 3 s) = [] then Some ([], []) else None)"

text \<open>\<open>/\/\/[^\n]*/g\<close>, replaced by the empty string.\<close>

definition re_line_comment :: "jsstring \<Rightarrow> (jsstring \<times> jsstring) option" where
  "re_line_comment s =
     (if take 2 s = js ''//'' then Some ([], dropWhile (\<lambda>c. c \<noteq> newline) (drop 2 s))
      else None)"

text \<open>The input after the first \<open>*/\<close>.\<close>

fun after_comment_end :: "jsstring \<Rightarrow> jsstring option" where
  "after_comment_end [] = None"
| "after_comment_end (c # cs) =
     (if take 2 (c # cs) = js ''*/'' then Some (drop 1 cs) else after_comment_end cs)"

text \<open>\<open>/\/\*[\s\S]*?\*\//g\<close>, replaced by the empty string.\<close>

definition re_block_comment :: "jsstring \<Rightarrow> (jsstring \<times> jsstring) option" where
  "re_block_comment s =
     (if take 2 s = js ''/*'' then
        (case after_comment_end (drop 2 s) of
           None \<Rightarrow> None
         | Some rest \<Rightarrow> Some ([], rest))
      else None)"

text \<open>\<open>/,\s*([}\]])/g\<close>, replaced by \<open>$1\<close>.\<close>

definition re_trailing_comma :: "jsstring \<Rightarrow> (jsstring \<times> jsstring) option" where
  "re_trailing_comma s =
     (case s of
        [] \<Rightarrow> None
      | c # cs \<Rightarrow>
          if c = ch CHR '','' then
            (case dropWhile is_space cs of
               [] \<Rightarrow> None
             | b # rest \<Rightarrow>
                 if b = ch CHR ''}'' \<or> b = ch CHR '']'' then Some ([b], rest) else None)
          else None)"

text \<open>\<open>/,\s*,/g\<close>, replaced by a comma.\<close>

definition re_double_comma :: "jsstring \<Rightarrow> (jsstring \<times> jsstring) option" where
  "re_double_comma s =
     (case s of
        [] \<Rightarrow> None
      | c # cs \<Rightarrow>
          if c = ch CHR '','' then
            (case dropWhile is_space cs of
               [] \<Rightarrow> None
             | b # rest \<Rightarrow> if b = ch CHR '','' then Some ([b], rest) else None)
          else None)"

text \<open>\<open>/^(true|false|null|undefined|None|True|False)$/\<close>\<close>

definition reserved_word :: "jsstring \<Rightarrow> bool" where
  "reserved_word w =
     (w = js ''true'' \<or> w = js ''false'' \<or> w = js ''null'' \<or> w = js ''undefined'' \<or>
      w = js ''None'' \<or> w = js ''True'' \<or> w = js ''False'')"

text \<open>The local variables of \<open>repairPass\<close>; \<open>rp_strQuote\<close> is empty or one quote character.\<close>

record repair_state =
  rp_r :: jsstring
  rp_i :: nat
  rp_inStr :: bool
  rp_strQuote :: jsstring
  rp_esc :: bool
  rp_hadSingleQuote :: bool
  rp_warnings :: "warning list"

text \<open>\<open>r += x; i += n\<close>\<close>

definition emit :: "jsstring \<Rightarrow> nat \<Rightarrow> repair_state \<Rightarrow> repair_state" where
  "emit x n st = st\<lparr>rp_r := rp_r st @ x, rp_i := rp_i st + n\<rparr>"

definition warn :: "warning_code \<Rightarrow> repair_state \<Rightarrow> repair_state" where
  "warn w st = st\<lparr>rp_warnings := rp_warnings st @ [Warning w []]\<rparr>"

text \<open>
  One iteration of the \<open>while\<close> loop of \<open>repairPass\<close> at \<open>i < s.length\<close>: the new
  state, and whether the loop was left by \<open>break\<close>. The two inner loops copy a run of
  whitespace and skip a run of key characters.
\<close>

definition repairPass_body :: "jsstring \<Rightarrow> repair_state \<Rightarrow> repair_state \<times> bool" where
  "repairPass_body s st =
     (let c = s ! rp_i st in
      if rp_esc st then
        (let st = st\<lparr>rp_esc := False\<rparr> in
         if rp_inStr st \<and> rp_strQuote st = [squote] \<and> c = squote then (emit [squote] 1 st, False)
         else if rp_inStr st \<and> rp_strQuote st = [squote] \<and> c = dquote then
           (emit [backslash, dquote] 1 st, False)
         else (emit [c] 1 st, False))
      else if c = backslash \<and> rp_inStr st then
        (if rp_strQuote st = [squote] then (emit [] 1 (st\<lparr>rp_esc := True\<rparr>), False)
         else (emit [c] 1 (st\<lparr>rp_esc := True\<rparr>), False))
      else if c = dquote then
        (if rp_inStr st then
           (if rp_strQuote st = [dquote] then
              (emit [dquote] 1 (st\<lparr>rp_inStr := False, rp_strQuote := []\<rparr>), False)
            else if rp_strQuote st = [squote] then (emit [backslash, dquote] 1 st, False)
            else (emit [dquote] 1 st, False))
         else (emit [dquote] 1 (st\<lparr>rp_inStr := True, rp_strQuote := [dquote]\<rparr>), False))
      else if c = squote then
        (if rp_inStr st then
           (if rp_strQuote st = [dquote] then (emit [squote] 1 st, False)
            else if rp_strQuote st = [squote] then
              (emit [dquote] 1
                 (st\<lparr>rp_inStr := False, rp_strQuote := [], rp_hadSingleQuote := True\<rparr>),
               False)
            else (emit [dquote] 1 st, False))
         else
           (emit [dquote] 1
              (st\<lparr>rp_inStr := True, rp_strQuote := [squote], rp_hadSingleQuote := True\<rparr>),
            False))
      else if rp_inStr st then (emit [c] 1 st, False)
      else if c = ch CHR ''{'' \<or> c = ch CHR '','' then
        (let st = emit [c] 1 st;
             ws = takeWhile is_space (drop (rp_i st) s);
             st = emit ws (length ws) st
         in if rp_i st \<ge> length s then (st, True)
            else if s ! rp_i st = dquote then
              (emit [dquote] 1 (st\<lparr>rp_inStr := True, rp_strQuote := [dquote]\<rparr>), False)
            else if s ! rp_i st = squote then
              (emit [dquote] 1
                 (st\<lparr>rp_inStr := True, rp_strQuote := [squote], rp_hadSingleQuote := True\<rparr>),
               False)
            else
              (let ks = rp_i st;
                   st = emit [] (length (takeWhile is_key_char (drop ks s))) st
               in if rp_i st > ks \<and> \<not> reserved_word (slice s ks (rp_i st)) then
                    (warn unquoted_key_fixed
                       (emit ([dquote] @ slice s ks (rp_i st) @ [dquote]) 0 st),
                     False)
                  else (st, False)))
      else if slice s (rp_i st) (rp_i st + 4) = js ''None'' then
        (warn python_literal_converted (emit (js ''null'') 4 st), False)
      else if slice s (rp_i st) (rp_i st + 4) = js ''True'' then
        (warn python_literal_converted (emit (js ''true'') 4 st), False)
      else if slice s (rp_i st) (rp_i st + 5) = js ''False'' then
        (warn python_literal_converted (emit (js ''false'') 5 st), False)
      else (emit [c] 1 st, False))"

lemma repairPass_body_advances: "rp_i st < rp_i (fst (repairPass_body s st))"
  by (simp add: repairPass_body_def emit_def warn_def Let_def)

function repairPass_loop :: "jsstring \<Rightarrow> repair_state \<Rightarrow> repair_state" where
  "repairPass_loop s st =
     (if rp_i st < length s then
        (case repairPass_body s st of
           (st', brk) \<Rightarrow> if brk then st' else repairPass_loop s st')
      else st)"
  by pat_completeness auto
termination
proof (relation "measure (\<lambda>(s, st). length s - rp_i st)")
  fix s :: jsstring and st x :: repair_state and brk :: bool
  assume "rp_i st < length s" and "(x, brk) = repairPass_body s st"
  then have "rp_i st < rp_i x"
    using repairPass_body_advances [of st s] by (metis fst_conv)
  then show "((s, x), (s, st)) \<in> measure (\<lambda>(s, st). length s - rp_i st)"
    using \<open>rp_i st < length s\<close> by simp
qed simp

declare repairPass_loop.simps [simp del]

text \<open>\<open>repairPass(s, warnings)\<close>: the text returned and the warnings array afterwards.\<close>

definition repairPass :: "jsstring \<Rightarrow> warning list \<Rightarrow> jsstring \<times> warning list" where
  "repairPass s ws =
     (let st = repairPass_loop s
                 \<lparr>rp_r = [], rp_i = 0, rp_inStr = False, rp_strQuote = [], rp_esc = False,
                  rp_hadSingleQuote = False, rp_warnings = ws\<rparr>
      in (rp_r st,
          if rp_hadSingleQuote st then rp_warnings st @ [Warning single_quotes_replaced []]
          else rp_warnings st))"

definition returns :: "'a outcome \<Rightarrow> bool" where
  "returns x = (case x of Return _ \<Rightarrow> True | Throw _ \<Rightarrow> False)"

definition repair :: "jsstring \<Rightarrow> repair_result" where
  "repair input =
     (if input = [] then \<lparr>output_text = [], warnings = [], valid = False\<rparr>
      else
        (let s = trim input;
             s = replaceAll re_fence_end (replaceAll re_fence_open s);
             s = replaceAll re_block_comment (replaceAll re_line_comment s);
             (s, ws) = repairPass s [];
             unchanged = s;
             s = replaceAll re_trailing_comma s;
             ws = (if unchanged \<noteq> s then ws @ [Warning trailing_comma_removed []] else ws);
             s = replaceAll re_double_comma s
         in \<lparr>output_text = s, warnings = ws, valid = returns (JSON_parse s)\<rparr>))"


subsection \<open>The result types (types.ts)\<close>

datatype error_code =
    no_json_found
  | invalid_json
  | schema_mismatch
  | truncated
  | type_error
  | missing_required

text \<open>
  The message of an error: a text of the sources, or the message of the engine's
  \<open>SyntaxError\<close> or \<open>TypeError\<close>, which is not modelled further.
\<close>

datatype message =
    Text jsstring
  | Engine_message

fun message_of :: "exn \<Rightarrow> message" where
  "message_of SyntaxError = Engine_message"
| "message_of TypeError = Engine_message"
| "message_of (Error m) = Text m"

text \<open>
  An error of \<open>validate\<close>: its path and its code. The texts \<open>message\<close>,
  \<open>expected\<close> and \<open>actual\<close> are not kept.
\<close>

datatype validation_error = ValidationError jsstring error_code

text \<open>
  \<open>ParseError\<close>. The context of a \<open>schema_mismatch\<close> is the text
  \<open>JSON.stringify(v.errors)\<close>, kept as the list of errors that it renders; the sources
  never set \<open>position\<close>.
\<close>

record parse_error =
  code :: error_code
  message :: message
  error_context :: "validation_error list option"

datatype confidence = high | medium | low

record partial_result =
  confidence :: confidence
  complete :: json
  pending :: "jsstring list"

datatype result =
    Success (data: json) (result_warnings: "warning list option")
  | Failure (error: parse_error) (partial: "partial_result option")

text \<open>
  A computation that may not return (\<open>None\<close>: the bound on the recursion was reached),
  may throw, or returns a value; \<open>try\<close> blocks and sequencing on both levels.
\<close>

type_synonym 'a comp = "'a outcome option"

definition bind_outcome :: "'a outcome \<Rightarrow> ('a \<Rightarrow> 'b outcome) \<Rightarrow> 'b outcome" where
  "bind_outcome x f = (case x of Return v \<Rightarrow> f v | Throw e \<Rightarrow> Throw e)"

definition try_catch :: "'a outcome \<Rightarrow> (exn \<Rightarrow> 'a outcome) \<Rightarrow> 'a outcome" where
  "try_catch x h = (case x of Return v \<Rightarrow> Return v | Throw e \<Rightarrow> h e)"

definition bind_comp :: "'a comp \<Rightarrow> ('a \<Rightarrow> 'b comp) \<Rightarrow> 'b comp" where
  "bind_comp x f =
     (case x of None \<Rightarrow> None | Some (Throw e) \<Rightarrow> Some (Throw e) | Some (Return v) \<Rightarrow> f v)"

definition try_comp :: "'a comp \<Rightarrow> (exn \<Rightarrow> 'a comp) \<Rightarrow> 'a comp" where
  "try_comp x h =
     (case x of None \<Rightarrow> None | Some (Throw e) \<Rightarrow> h e | Some (Return v) \<Rightarrow> Some (Return v))"

subsection \<open>partial.ts\<close>

text \<open>\<open>PartialParseOptions\<close>: every flag may be absent.\<close>

record partial_parse_options =
  allowPartialStrings :: "bool option"
  allowPartialObjects :: "bool option"
  allowPartialArrays :: "bool option"
  allowPartialNumbers :: "bool option"

text \<open>The options after the defaults were merged in.\<close>

record merged_options =
  partialStrings :: bool
  partialObjects :: bool
  partialArrays :: bool
  partialNumbers :: bool

definition merge_options :: "partial_parse_options option \<Rightarrow> merged_options" where
  "merge_options options =
     (let pick = (\<lambda>field default.
                    case options of
                      None \<Rightarrow> default
                    | Some given \<Rightarrow> (case field given of None \<Rightarrow> default | Some b \<Rightarrow> b))
      in \<lparr>partialStrings = pick allowPartialStrings True,
          partialObjects = pick allowPartialObjects True,
          partialArrays = pick allowPartialArrays True,
          partialNumbers = pick allowPartialNumbers False\<rparr>)"

text \<open>The decimal digits of an index, for \<open>'Unexpected token at ' + i\<close>.\<close>

fun decimal :: "nat \<Rightarrow> jsstring" where
  "decimal n = (if n < 10 then [48 + n] else decimal (n div 10) @ [48 + n mod 10])"

declare decimal.simps [simp del]

text \<open>\<open>skip\<close>, \<open>peek\<close> and the index after \<open>take\<close>; \<open>s[i]\<close> is undefined from the end on.\<close>

definition skip :: "jsstring \<Rightarrow> nat \<Rightarrow> nat" where
  "skip s i = i + length (takeWhile is_space (drop i s))"

definition peek :: "jsstring \<Rightarrow> nat \<Rightarrow> jschar option" where
  "peek s i = (if i < length s then Some (s ! i) else None)"

definition digits_end :: "jsstring \<Rightarrow> nat \<Rightarrow> nat" where
  "digits_end s i = i + length (takeWhile is_digit (drop i s))"

text \<open>
  The loop of \<open>parseStr\<close> over the characters from the index on: the text read, the
  index after it, and whether the closing quote was found.
\<close>

fun parseStr_loop :: "jsstring \<Rightarrow> bool \<Rightarrow> jsstring \<Rightarrow> nat \<Rightarrow> jsstring \<times> nat \<times> bool" where
  "parseStr_loop [] e r i = (r, i, False)"
| "parseStr_loop (c # cs) e r i =
     (if e then parseStr_loop cs False (r @ [c]) (i + 1)
      else if c = backslash then parseStr_loop cs True r (i + 1)
      else if c = dquote then (r, i + 1, True)
      else parseStr_loop cs False (r @ [c]) (i + 1))"

definition parseStr :: "jsstring \<Rightarrow> merged_options \<Rightarrow> nat \<Rightarrow> (jsstring \<times> nat) outcome" where
  "parseStr s opts i =
     (case parseStr_loop (drop (i + 1) s) False [] (i + 1) of
        (r, j, closed) \<Rightarrow>
          if closed then Return (r, j)
          else if partialStrings opts then Return (r, j)
          else Throw (Error (js ''Unterminated string'')))"

text \<open>\<open>parseNum\<close>: the number is kept as the text handed to \<open>parseFloat\<close>.\<close>

definition parseNum :: "jsstring \<Rightarrow> merged_options \<Rightarrow> nat \<Rightarrow> json \<times> nat" where
  "parseNum s opts start =
     (let i = (if peek s start = Some (ch CHR ''-'') then start + 1 else start);
          i = digits_end s i;
          i = (if peek s i = Some (ch CHR ''.'') then digits_end s (i + 1) else i);
          i = (if peek s i = Some (ch CHR ''e'') \<or> peek s i = Some (ch CHR ''E'') then
                 (let i = i + 1;
                      i = (if peek s i = Some (ch CHR ''+'') \<or> peek s i = Some (ch CHR ''-'')
                           then i + 1 else i)
                  in digits_end s i)
               else i);
          num = slice s start i;
          num = (if partialNumbers opts \<and> num \<noteq> [] \<and> last num = ch CHR ''.''
                 then butlast num else num)
      in (JNum num, i))"

text \<open>
  \<open>obj[key] = v\<close> on the ordinary object that \<open>parseObj\<close> builds. The key
  \<open>__proto__\<close> names the accessor of \<open>Object.prototype\<close>, so the assignment creates
  no property (it makes an object or \<open>null\<close> the prototype of \<open>obj\<close>; an object is
  modelled by its own properties, and its prototype is taken to be \<open>Object.prototype\<close>).
\<close>

definition set_property ::
  "jsstring \<Rightarrow> json \<Rightarrow> (jsstring \<times> json) list \<Rightarrow> (jsstring \<times> json) list" where
  "set_property key v obj = (if key = js ''__proto__'' then obj else assign key v obj)"

text \<open>
  The mutually recursive closures of \<open>doParse\<close>, with the index \<open>i\<close> passed and
  returned. The first argument bounds the depth of the recursion; the limit of the
  engine's call stack is not modelled.
\<close>

function (sequential) parseValue :: "nat \<Rightarrow> jsstring \<Rightarrow> merged_options \<Rightarrow> nat \<Rightarrow> (json \<times> nat) comp"
  and parseArr :: "nat \<Rightarrow> jsstring \<Rightarrow> merged_options \<Rightarrow> nat \<Rightarrow> (json \<times> nat) comp"
  and parseArr_loop ::
    "nat \<Rightarrow> jsstring \<Rightarrow> merged_options \<Rightarrow> nat \<Rightarrow> json list \<Rightarrow> (json \<times> nat) comp"
  and parseObj :: "nat \<Rightarrow> jsstring \<Rightarrow> merged_options \<Rightarrow> nat \<Rightarrow> (json \<times> nat) comp"
  and parseObj_loop ::
    "nat \<Rightarrow> jsstring \<Rightarrow> merged_options \<Rightarrow> nat \<Rightarrow> (jsstring \<times> json) list \<Rightarrow> (json \<times> nat) comp"
where
  "parseValue 0 s opts i0 = None"
| "parseValue (Suc n) s opts i0 =
     (let i = skip s i0; c = peek s i in
      if c = Some (ch CHR ''{'') then parseObj n s opts i
      else if c = Some (ch CHR ''['') then parseArr n s opts i
      else if c = Some dquote then
        (case parseStr s opts i of
           Return (r, j) \<Rightarrow> Some (Return (JStr r, j))
         | Throw e \<Rightarrow> Some (Throw e))
      else if c = Some (ch CHR ''-'') \<or> (case c of None \<Rightarrow> False | Some d \<Rightarrow> is_digit d) then
        Some (Return (parseNum s opts i))
      else if slice s i (i + 4) = js ''true'' then Some (Return (JBool True, i + 4))
      else if slice s i (i + 5) = js ''false'' then Some (Return (JBool False, i + 5))
      else if slice s i (i + 4) = js ''null'' then Some (Return (JNull, i + 4))
      else Some (Throw (Error (js ''Unexpected token at '' @ decimal i))))"
| "parseArr 0 s opts i0 = None"
| "parseArr (Suc n) s opts i0 =
     (let i = skip s (i0 + 1) in
      if peek s i = Some (ch CHR '']'') then Some (Return (JArr [], i + 1))
      else parseArr_loop n s opts i [])"
| "parseArr_loop 0 s opts i0 arr = None"
| "parseArr_loop (Suc n) s opts i0 arr =
     (if i0 < length s then
        (let i = skip s i0 in
         if peek s i = Some (ch CHR '']'') then Some (Return (JArr arr, i + 1))
         else if peek s i = Some (ch CHR '','') then parseArr_loop n s opts (i + 1) arr
         else (case parseValue n s opts i of
                 None \<Rightarrow> None
               | Some (Throw e) \<Rightarrow> Some (Throw e)
               | Some (Return (v, j)) \<Rightarrow> parseArr_loop n s opts j (arr @ [v])))
      else if partialArrays opts then Some (Return (JArr arr, i0))
      else Some (Throw (Error (js ''Unterminated array''))))"
| "parseObj 0 s opts i0 = None"
| "parseObj (Suc n) s opts i0 =
     (let i = skip s (i0 + 1) in
      if peek s i = Some (ch CHR ''}'') then Some (Return (JObj [], i + 1))
      else parseObj_loop n s opts i [])"
| "parseObj_loop 0 s opts i0 obj = None"
| "parseObj_loop (Suc n) s opts i0 obj =
     (if i0 < length s then
        (let i = skip s i0 in
         if peek s i = Some (ch CHR ''}'') then Some (Return (JObj obj, i + 1))
         else if peek s i = Some (ch CHR '','') then parseObj_loop n s opts (i + 1) obj
         else (case parseStr s opts i of
                 Throw e \<Rightarrow> Some (Throw e)
               | Return (key, j) \<Rightarrow>
                   (let i = skip s j in
                    if peek s i \<noteq> Some (ch CHR '':'') then
                      (if partialObjects opts then Some (Return (JObj obj, i))
                       else Some (Throw (Error (js ''Expected colon''))))
                    else
                      (case parseValue n s opts (skip s (i + 1)) of
                         None \<Rightarrow> None
                       | Some (Throw e) \<Rightarrow> Some (Throw e)
                       | Some (Return (v, j')) \<Rightarrow> parseObj_loop n s opts j' (set_property key v obj)))))
      else if partialObjects opts then Some (Return (JObj obj, i0))
      else Some (Throw (Error (js ''Unterminated object''))))"
  by pat_completeness auto
termination
  by (relation "measure (\<lambda>x. case x of
          Inl (Inl (n, _)) \<Rightarrow> n
        | Inl (Inr (n, _)) \<Rightarrow> n
        | Inr (Inl (n, _)) \<Rightarrow> n
        | Inr (Inr (Inl (n, _))) \<Rightarrow> n
        | Inr (Inr (Inr (n, _))) \<Rightarrow> n)") auto

definition doParse :: "jsstring \<Rightarrow> merged_options \<Rightarrow> json comp" where
  "doParse s opts =
     bind_comp (parseValue (3 * length s + 3) s opts 0) (\<lambda>(v, i). Some (Return v))"

definition parsePartial :: "jsstring \<Rightarrow> partial_parse_options option \<Rightarrow> result comp" where
  "parsePartial input options =
     (if input = [] then
        Some (Return (Failure \<lparr>code = no_json_found, message = Text (js ''Empty input''),
                               error_context = None\<rparr> None))
      else
        try_comp (bind_comp (Some (JSON_parse input)) (\<lambda>d. Some (Return (Success d None))))
          (\<lambda>_. let opts = merge_options options in
                try_comp (bind_comp (doParse input opts) (\<lambda>d. Some (Return (Success d None))))
                  (\<lambda>e. Some (Return
                         (Failure \<lparr>code = truncated, message = message_of e,
                                   error_context = None\<rparr>
                            (Some \<lparr>confidence = medium, complete = JObj [], pending = []\<rparr>))))))"

subsection \<open>validate.ts\<close>

text \<open>
  \<open>Schema\<close>. The properties of an object schema are the own properties of the object
  \<open>properties\<close>; absent fields are \<open>None\<close>. The bounds \<open>minItems\<close> and
  \<open>maxItems\<close> are integers.
\<close>

datatype primitive_type = T_string | T_number | T_boolean | T_null

datatype literal = L_string jsstring | L_number jsstring | L_boolean bool | L_null

datatype schema =
    PrimitiveSchema primitive_type "jsstring list option"
  | ArraySchema schema "int option" "int option"
  | ObjectSchema "(jsstring \<times> schema) list" "jsstring list option" "bool option"
  | UnionSchema "schema list"
  | LiteralSchema literal

text \<open>
  A number is kept as its text, and the number of a literal schema is given as a text too.
  \<open>number_value\<close> is the value that \<open>parseFloat\<close> gives to a text taken by
  \<open>parseNum\<close>, and the value of a JSON number: \<open>None\<close> for \<open>NaN\<close>, and otherwise
  the sign, the digits \<open>m\<close> and the exponent \<open>e\<close> of the number \<open>m * 10\<^sup>e\<close>, where
  \<open>m\<close> does not end with 0. Two numbers are compared by these decimal values; the engine compares
  the doubles nearest to them.
\<close>

function strip_zeros :: "int \<Rightarrow> int \<Rightarrow> int \<times> int" where
  "strip_zeros m e = (if 0 < m \<and> m mod 10 = 0 then strip_zeros (m div 10) (e + 1) else (m, e))"
  by pat_completeness auto
termination
  by (relation "measure (\<lambda>(m, e). nat m)") auto

declare strip_zeros.simps [simp del]

definition number_value :: "jsstring \<Rightarrow> (bool \<times> int \<times> int) option" where
  "number_value s =
     (let neg = (s \<noteq> [] \<and> hd s = ch CHR ''-'');
          s = (if neg then tl s else s);
          ip = takeWhile is_digit s;
          s = dropWhile is_digit s;
          dot = (s \<noteq> [] \<and> hd s = ch CHR ''.'');
          fp = (if dot then takeWhile is_digit (tl s) else []);
          s = (if dot then dropWhile is_digit (tl s) else s);
          ex = (if s \<noteq> [] \<and> (hd s = ch CHR ''e'' \<or> hd s = ch CHR ''E'') then tl s else []);
          eneg = (ex \<noteq> [] \<and> hd ex = ch CHR ''-'');
          ed = takeWhile is_digit
                 (if ex \<noteq> [] \<and> (hd ex = ch CHR ''+'' \<or> hd ex = ch CHR ''-'') then tl ex else ex);
          e = (if eneg then - digits_value ed else digits_value ed)
      in if ip = [] \<and> fp = [] then None
         else (case strip_zeros (digits_value (ip @ fp)) (e - int (length fp)) of
                 (m, e) \<Rightarrow> if m = 0 then Some (False, 0, 0) else Some (neg, m, e)))"

text \<open>\<open>d === s.value\<close> for the value of a literal schema.\<close>

fun strict_equal :: "json \<Rightarrow> literal \<Rightarrow> bool" where
  "strict_equal (JStr a) (L_string b) = (a = b)"
| "strict_equal (JNum a) (L_number b) = (number_value a \<noteq> None \<and> number_value a = number_value b)"
| "strict_equal (JBool a) (L_boolean b) = (a = b)"
| "strict_equal JNull L_null = True"
| "strict_equal _ _ = False"

text \<open>
  Whether \<open>String(d)\<close> throws its \<open>TypeError\<close>. For an object the conversion calls the
  method \<open>toString\<close> and then \<open>valueOf\<close>: an own property \<open>toString\<close> of parsed data is
  no function, and \<open>valueOf\<close> is then no function either or gives the object back, so the
  conversion throws; without that own property \<open>Object.prototype.toString\<close> gives a
  string. An array joins the conversions of its elements other than \<open>null\<close>.
\<close>

fun String_throws :: "json \<Rightarrow> bool" where
  "String_throws (JArr vs) = (\<exists>v \<in> set vs. v \<noteq> JNull \<and> String_throws v)"
| "String_throws (JObj kvs) = (js ''toString'' \<in> fst ` set kvs)"
| "String_throws _ = False"

text \<open>\<open>k in obj\<close>: an own property, or a property of \<open>Object.prototype\<close>.\<close>

definition Object_prototype_names :: "jsstring list" where
  "Object_prototype_names =
     [js ''constructor'', js ''__defineGetter__'', js ''__defineSetter__'', js ''hasOwnProperty'',
      js ''__lookupGetter__'', js ''__lookupSetter__'', js ''isPrototypeOf'',
      js ''propertyIsEnumerable'', js ''toString'', js ''valueOf'', js ''__proto__'',
      js ''toLocaleString'']"

definition has_property :: "jsstring \<Rightarrow> (jsstring \<times> 'a) list \<Rightarrow> bool" where
  "has_property k obj = (k \<in> fst ` set obj \<or> k \<in> set Object_prototype_names)"

text \<open>
  The errors that a loop pushes for the elements of a list, unless a call throws; and the
  loop of \<open>validateUnion\<close>, which stops at the first variant without errors.
\<close>

fun collect :: "('a \<Rightarrow> 'b list outcome) \<Rightarrow> 'a list \<Rightarrow> 'b list outcome" where
  "collect f [] = Return []"
| "collect f (x # xs) =
     (case f x of
        Throw e \<Rightarrow> Throw e
      | Return es \<Rightarrow> (case collect f xs of Throw e \<Rightarrow> Throw e | Return es' \<Rightarrow> Return (es @ es')))"

fun first_match :: "('a \<Rightarrow> 'b list outcome) \<Rightarrow> 'a list \<Rightarrow> bool outcome" where
  "first_match f [] = Return False"
| "first_match f (x # xs) =
     (case f x of
        Throw e \<Rightarrow> Throw e
      | Return es \<Rightarrow> if es = [] then Return True else first_match f xs)"

lemma collect_cong [fundef_cong]:
  "xs = ys \<Longrightarrow> (\<And>x. x \<in> set ys \<Longrightarrow> f x = g x) \<Longrightarrow> collect f xs = collect g ys"
  by (induction ys arbitrary: xs) (auto split: outcome.split)

lemma first_match_cong [fundef_cong]:
  "xs = ys \<Longrightarrow> (\<And>x. x \<in> set ys \<Longrightarrow> f x = g x) \<Longrightarrow> first_match f xs = first_match g ys"
  by (induction ys arbitrary: xs) (auto split: outcome.split)

lemma size_member: "x \<in> set xs \<Longrightarrow> f x \<le> size_list f xs"
  by (induction xs) auto

lemma size_property:
  "map_of ps k = Some (s :: schema) \<Longrightarrow> size s \<le> size_list (size_prod (\<lambda>x. 0) size) ps"
  using size_member [of "(k, s)" ps "size_prod (\<lambda>x. 0) size"] by (auto dest: map_of_SomeD)

lemma size_variant: "(v :: schema) \<in> set vs \<Longrightarrow> size v \<le> size_list size vs"
  by (rule size_member)

definition checkEnum :: "jsstring \<Rightarrow> jsstring list option \<Rightarrow> jsstring \<Rightarrow> validation_error list" where
  "checkEnum d e p =
     (case e of
        None \<Rightarrow> []
      | Some e \<Rightarrow> if d \<notin> set e then [ValidationError p type_error] else [])"

text \<open>
  \<open>validateValue\<close> and the three functions it calls, which take the fields of their
  schema. A property of \<open>s.properties\<close> that is inherited from \<open>Object.prototype\<close> has
  no \<open>type\<close> that \<open>validateValue\<close> knows, and gives no error.
\<close>

function validateValue :: "json \<Rightarrow> schema \<Rightarrow> jsstring \<Rightarrow> validation_error list outcome"
  and validateArray ::
    "json \<Rightarrow> schema \<Rightarrow> int option \<Rightarrow> int option \<Rightarrow> jsstring \<Rightarrow> validation_error list outcome"
  and validateObject ::
    "json \<Rightarrow> (jsstring \<times> schema) list \<Rightarrow> jsstring list option \<Rightarrow> bool option \<Rightarrow> jsstring
       \<Rightarrow> validation_error list outcome"
  and validateUnion :: "json \<Rightarrow> schema list \<Rightarrow> jsstring \<Rightarrow> validation_error list outcome"
where
  "validateValue d (PrimitiveSchema t e) p =
     Return
       (case t of
          T_null \<Rightarrow> if d = JNull then [] else [ValidationError p type_error]
        | T_string \<Rightarrow> (case d of JStr x \<Rightarrow> checkEnum x e p | _ \<Rightarrow> [ValidationError p type_error])
        | T_number \<Rightarrow> (case d of JNum x \<Rightarrow> [] | _ \<Rightarrow> [ValidationError p type_error])
        | T_boolean \<Rightarrow> (case d of JBool x \<Rightarrow> [] | _ \<Rightarrow> [ValidationError p type_error]))"
| "validateValue d (ArraySchema items minItems maxItems) p = validateArray d items minItems maxItems p"
| "validateValue d (ObjectSchema properties required additionalProperties) p =
     validateObject d properties required additionalProperties p"
| "validateValue d (UnionSchema variants) p = validateUnion d variants p"
| "validateValue d (LiteralSchema value) p =
     (if strict_equal d value then Return []
      else if String_throws d then Throw TypeError
      else Return [ValidationError p type_error])"
| "validateArray d items minItems maxItems p =
     (case d of
        JArr vs \<Rightarrow>
          (let e = (if minItems \<noteq> None \<and> int (length vs) < the minItems
                    then [ValidationError p type_error] else []) @
                   (if maxItems \<noteq> None \<and> int (length vs) > the maxItems
                    then [ValidationError p type_error] else [])
           in case collect (\<lambda>(i, v). validateValue v items (p @ js ''/'' @ decimal i))
                     (enumerate 0 vs) of
                Throw x \<Rightarrow> Throw x
              | Return es \<Rightarrow> Return (e @ es))
      | _ \<Rightarrow> Return [ValidationError p type_error])"
| "validateObject d properties required additionalProperties p =
     (case d of
        JObj obj \<Rightarrow>
          (let req = (case required of None \<Rightarrow> [] | Some r \<Rightarrow> r);
               e = map (\<lambda>k. ValidationError (p @ js ''/'' @ k) missing_required)
                     (filter (\<lambda>k. \<not> has_property k obj) req)
           in case collect
                     (\<lambda>(k, v).
                        case map_of properties k of
                          Some sk \<Rightarrow> validateValue v sk (p @ js ''/'' @ k)
                        | None \<Rightarrow>
                            if k \<in> set Object_prototype_names then Return []
                            else if additionalProperties = Some False
                            then Return [ValidationError (p @ js ''/'' @ k) type_error]
                            else Return [])
                     obj of
                Throw x \<Rightarrow> Throw x
              | Return es \<Rightarrow> Return (e @ es))
      | _ \<Rightarrow> Return [ValidationError p type_error])"
| "validateUnion d variants p =
     (case first_match (\<lambda>v. validateValue d v p) variants of
        Throw x \<Rightarrow> Throw x
      | Return matched \<Rightarrow>
          if matched then Return []
          else if String_throws d then Throw TypeError
          else Return [ValidationError p type_error])"
  by pat_completeness auto
termination
  apply (relation "measure (\<lambda>x. case x of
          Inl (Inl (d, s, p)) \<Rightarrow> 2 * size s + 1
        | Inl (Inr (d, items, r)) \<Rightarrow> 2 * size (ArraySchema items None None)
        | Inr (Inl (d, properties, r)) \<Rightarrow> 2 * size (ObjectSchema properties None None)
        | Inr (Inr (d, variants, p)) \<Rightarrow> 2 * size (UnionSchema variants))")
     apply (auto dest!: size_property size_variant)
  done

text \<open>\<open>ValidationResult\<close> and \<open>validate\<close>.\<close>

record validation_result =
  ok :: bool
  valid_data :: "json option"
  errors :: "validation_error list option"

definition validate :: "json \<Rightarrow> schema \<Rightarrow> validation_result outcome" where
  "validate d s =
     (case validateValue d s [] of
        Throw x \<Rightarrow> Throw x
      | Return es \<Rightarrow>
          Return (if es = [] then \<lparr>ok = True, valid_data = Some d, errors = None\<rparr>
                  else \<lparr>ok = False, valid_data = None, errors = Some es\<rparr>))"

text \<open>
  The statement
  \<open>if (schema) { const v = validate(d, schema); if (!v.ok) return {ok: false, ...} }\<close>,
  which \<open>parse\<close> has twice and \<open>process\<close> once: the failure that it returns, if any.
\<close>

definition schema_check :: "schema option \<Rightarrow> json \<Rightarrow> result option outcome" where
  "schema_check sch d =
     (case sch of
        None \<Rightarrow> Return None
      | Some s \<Rightarrow>
          (case validate d s of
             Throw x \<Rightarrow> Throw x
           | Return v \<Rightarrow>
               if \<not> ok v then
                 Return (Some (Failure \<lparr>code = schema_mismatch,
                                         message = Text (js ''Schema mismatch''),
                                         error_context = errors v\<rparr> None))
               else Return None))"

subsection \<open>parse.ts\<close>

text \<open>
  \<open>parse(input, schema)\<close>. Both calls of \<open>validate\<close> are inside a \<open>try\<close> block: what
  the first throws is dropped, what the second throws becomes an \<open>invalid_json\<close> failure.
\<close>

definition parse :: "jsstring \<Rightarrow> schema option \<Rightarrow> result outcome" where
  "parse input sch =
     (if input = [] then
        Return (Failure \<lparr>code = no_json_found, message = Text (js ''Empty input''),
                         error_context = None\<rparr> None)
      else
        (let ex = extract_json input in
         if json ex = None \<or> json ex = Some [] then
           Return (Failure \<lparr>code = no_json_found, message = Text (js ''No JSON found''),
                            error_context = None\<rparr> None)
         else
           try_catch
             (bind_outcome (JSON_parse (the (json ex)))
                (\<lambda>d. bind_outcome (schema_check sch d)
                   (\<lambda>mismatch. case mismatch of
                                  Some failure \<Rightarrow> Return failure
                                | None \<Rightarrow> Return (Success d None))))
             (\<lambda>_. let rep = repair (the (json ex)) in
                   try_catch
                     (bind_outcome (JSON_parse (output_text rep))
                        (\<lambda>d. bind_outcome (schema_check sch d)
                           (\<lambda>mismatch. case mismatch of
                                          Some failure \<Rightarrow> Return failure
                                        | None \<Rightarrow>
                                            Return (Success d (if warnings rep \<noteq> []
                                                               then Some (warnings rep)
                                                               else None)))))
                     (\<lambda>e. Return (Failure \<lparr>code = invalid_json, message = message_of e,
                                            error_context = None\<rparr> None)))))"

subsection \<open>streaming.ts\<close>

text \<open>
  \<open>StreamingOptions\<close>: of the options, \<open>createStreamingParser\<close> reads the schema only
  (the callbacks are never called). \<open>no_options\<close> is \<open>options || {}\<close> for a parser
  created without options.
\<close>

record streaming_options =
  schema :: "schema option"

definition no_options :: streaming_options where
  "no_options = \<lparr>schema = None\<rparr>"

text \<open>The variables that \<open>createStreamingParser\<close> declares, and their initial values.\<close>

record stream_state =
  buf :: jsstring
  depth :: int
  inStr :: bool
  esc :: bool
  started :: bool

definition pOpts :: partial_parse_options where
  "pOpts = \<lparr>allowPartialStrings = Some True, allowPartialObjects = Some True,
            allowPartialArrays = Some True, allowPartialNumbers = Some False\<rparr>"

definition created :: stream_state where
  "created = \<lparr>buf = [], depth = 0, inStr = False, esc = False, started = False\<rparr>"

text \<open>One iteration of the loop of \<open>update\<close> at index \<open>i\<close> of the buffer.\<close>

definition update_body :: "stream_state \<Rightarrow> nat \<Rightarrow> stream_state" where
  "update_body st i =
     (let c = buf st ! i in
      if esc st then st\<lparr>esc := False\<rparr>
      else if c = backslash \<and> inStr st then st\<lparr>esc := True\<rparr>
      else if c = dquote then st\<lparr>inStr := \<not> inStr st\<rparr>
      else if inStr st then st
      else if c = ch CHR ''{'' \<or> c = ch CHR ''['' then
        (if depth st = 0 then st\<lparr>started := True\<rparr> else st)\<lparr>depth := depth st + 1\<rparr>
      else if c = ch CHR ''}'' \<or> c = ch CHR '']'' then st\<lparr>depth := depth st - 1\<rparr>
      else st)"

lemma buf_update_body [simp]: "buf (update_body st i) = buf st"
  by (simp add: update_body_def Let_def)

function update_loop :: "stream_state \<Rightarrow> nat \<Rightarrow> stream_state" where
  "update_loop st i =
     (if i < length (buf st) then update_loop (update_body st i) (i + 1) else st)"
  by pat_completeness auto
termination
  by (relation "measure (\<lambda>(st, i). length (buf st) - i)") auto

declare update_loop.simps [simp del]

definition update :: "jsstring \<Rightarrow> stream_state \<Rightarrow> stream_state" where
  "update c st =
     (let st = st\<lparr>buf := buf st @ c\<rparr>
      in update_loop st (length (buf st) - length c))"

text \<open>
  \<open>process\<close>. The call of \<open>validate\<close> is in no \<open>try\<close> block: what it throws leaves
  \<open>process\<close>, and with it \<open>write\<close> or \<open>finish\<close>.
\<close>

definition process :: "streaming_options \<Rightarrow> stream_state \<Rightarrow> result comp" where
  "process opts st =
     (let ex = extract_json (buf st) in
      if json ex = None \<or> json ex = Some [] then
        Some (Return (Failure \<lparr>code = truncated, message = Text (js ''No JSON found''),
                               error_context = None\<rparr> None))
      else
        (let rep = repair (the (json ex))
         in bind_comp (parsePartial (output_text rep) (Some pOpts))
              (\<lambda>res. case res of
                        Success d ws \<Rightarrow>
                          bind_comp (Some (schema_check (schema opts) d))
                            (\<lambda>mismatch. case mismatch of
                                           Some failure \<Rightarrow> Some (Return failure)
                                         | None \<Rightarrow> Some (Return res))
                      | Failure _ _ \<Rightarrow> Some (Return res))))"

text \<open>\<open>write(c)\<close>: the state afterwards and what is returned.\<close>

definition write_chunk ::
  "streaming_options \<Rightarrow> jsstring \<Rightarrow> stream_state \<Rightarrow> stream_state \<times> result comp" where
  "write_chunk opts c st = (let st = update c st in (st, process opts st))"

definition finish :: "streaming_options \<Rightarrow> stream_state \<Rightarrow> result comp" where
  "finish opts st =
     (if \<not> started st then
        Some (Return (Failure \<lparr>code = no_json_found, message = Text (js ''No JSON found''),
                               error_context = None\<rparr> None))
      else if depth st > 0 \<or> inStr st then
        Some (Return (Failure \<lparr>code = truncated, message = Text (js ''Incomplete JSON''),
                               error_context = None\<rparr> None))
      else process opts st)"

definition reset :: "stream_state \<Rightarrow> stream_state" where
  "reset st = st\<lparr>buf := [], depth := 0, inStr := False, esc := False, started := False\<rparr>"


subsection \<open>Sessions as sequences of calls\<close>

text \<open>
  The calls a caller can make on a streaming parser, and the state they leave.
  \<open>rescan b\<close> is the state obtained by scanning the whole buffer \<open>b\<close> once from
  position 0 with the rules of \<open>update\<close>.
\<close>

datatype session_op = Write jsstring | Finish | Reset

fun apply_op :: "streaming_options \<Rightarrow> session_op \<Rightarrow> stream_state \<Rightarrow> stream_state" where
  "apply_op opts (Write c) st = fst (write_chunk opts c st)"
| "apply_op opts Finish st = st"
| "apply_op opts Reset st = reset st"

definition rescan :: "jsstring \<Rightarrow> stream_state" where
  "rescan b = update_loop (created\<lparr>buf := b\<rparr>) 0"


text \<open>Every flag of \<open>parsePartial\<close> switched on.\<close>

definition all_partial :: partial_parse_options where
  "all_partial = \<lparr>allowPartialStrings = Some True, allowPartialObjects = Some True,
                  allowPartialArrays = Some True, allowPartialNumbers = Some True\<rparr>"

subsection \<open>Notions used in the statements\<close>

text \<open>Brackets, and the characters that the bracket scanners pass over outside a string.\<close>

definition is_open :: "jschar \<Rightarrow> bool" where
  "is_open c = (c = ch CHR ''{'' \<or> c = ch CHR ''['')"

definition is_close :: "jschar \<Rightarrow> bool" where
  "is_close c = (c = ch CHR ''}'' \<or> c = ch CHR '']'')"



section \<open>Properties\<close>

text \<open>Unfolding sets for evaluating the definitions on concrete inputs.\<close>

lemmas char_defs = is_space_def is_digit_def is_key_char_def is_json_ws_def js_def fence_def ci_eq_def
lemmas regex_defs = re_fence_open_def re_fence_end_def re_line_comment_def re_block_comment_def
  re_trailing_comma_def re_double_comma_def re_md_fence_def
lemmas json_defs = JSON_parse_def json_number_def json_int_def json_frac_def json_exp_def
  json_digits_def hex4_def hex_digit_def simple_escape_def assign_def index_before_def
  array_index_def digits_value_def
lemmas repair_defs = repair_def trim_def repairPass_def repairPass_loop.simps repairPass_body_def
  emit_def warn_def slice_def reserved_word_def returns_def
lemmas extract_defs = extract_json_def extractAll_def stripMd_def trim_def findJson_def
  findJson_loop.simps findJson_body_def slice_def
lemmas partial_defs = parsePartial_def doParse_def merge_options_def parseStr_def parseNum_def
  skip_def peek_def digits_end_def slice_def bind_comp_def try_comp_def set_property_def
lemmas validate_defs = validate_def schema_check_def checkEnum_def has_property_def
  Object_prototype_names_def number_value_def strip_zeros.simps digits_value_def
lemmas stream_defs = write_chunk_def update_def update_loop.simps update_body_def created_def
  finish_def process_def pOpts_def reset_def no_options_def


text \<open>Unfolding the bounded recursions at a numeral.\<close>

lemmas json_fuel_numeral =
  json_value.simps(2) [of "pred_numeral k", folded numeral_eq_Suc]
  json_elements.simps(2) [of "pred_numeral k", folded numeral_eq_Suc]
  json_members.simps(2) [of "pred_numeral k", folded numeral_eq_Suc]
  for k

lemmas parse_fuel_numeral =
  parseValue.simps(2) [of "pred_numeral k", folded numeral_eq_Suc]
  parseArr.simps(2) [of "pred_numeral k", folded numeral_eq_Suc]
  parseArr_loop.simps(2) [of "pred_numeral k", folded numeral_eq_Suc]
  parseObj.simps(2) [of "pred_numeral k", folded numeral_eq_Suc]
  parseObj_loop.simps(2) [of "pred_numeral k", folded numeral_eq_Suc]
  for k

lemmas json_eval = json_defs char_defs json_fuel_numeral
lemmas partial_eval = partial_defs char_defs parse_fuel_numeral Let_def decimal.simps


subsection \<open>The streaming state is a scan of the buffer\<close>

lemma buf_update_loop [simp]: "buf (update_loop st i) = buf st"
  by (induction st i rule: update_loop.induct) (simp add: update_loop.simps)

lemma update_body_append:
  "i < length (buf st) \<Longrightarrow>
   update_body (st\<lparr>buf := buf st @ c\<rparr>) i = (update_body st i)\<lparr>buf := buf st @ c\<rparr>"
  by (simp add: update_body_def Let_def nth_append)

lemma update_loop_append:
  "i \<le> length (buf st) \<Longrightarrow>
   update_loop (st\<lparr>buf := buf st @ c\<rparr>) i =
   update_loop ((update_loop st i)\<lparr>buf := buf st @ c\<rparr>) (length (buf st))"
proof (induction st i rule: update_loop.induct)
  case (1 st i)
  show ?case
  proof (cases "i < length (buf st)")
    case True
    have "update_loop (st\<lparr>buf := buf st @ c\<rparr>) i
            = update_loop ((update_body st i)\<lparr>buf := buf st @ c\<rparr>) (i + 1)"
      using True by (subst update_loop.simps) (simp add: update_body_append)
    also have "\<dots> = update_loop ((update_loop (update_body st i) (i + 1))\<lparr>buf := buf st @ c\<rparr>)
                        (length (buf st))"
      using "1.IH" [OF True] True by simp
    also have "update_loop (update_body st i) (i + 1) = update_loop st i"
      using True by (subst (2) update_loop.simps) simp
    finally show ?thesis .
  next
    case False
    with "1.prems" have "i = length (buf st)" by simp
    moreover have "update_loop st (length (buf st)) = st"
      by (subst update_loop.simps) simp
    ultimately show ?thesis by simp
  qed
qed

lemma rescan_append:
  "rescan (b @ c) = update_loop ((rescan b)\<lparr>buf := b @ c\<rparr>) (length b)"
  using update_loop_append [of 0 "created\<lparr>buf := b\<rparr>" c] by (simp add: rescan_def)

lemma update_rescan: "update c (rescan b) = rescan (b @ c)"
  by (simp add: update_def rescan_append Let_def)
    (simp add: rescan_def)

lemma rescan_Nil: "rescan [] = created"
  by (simp add: rescan_def created_def update_loop.simps)

lemma reset_created: "reset st = created"
  by (simp add: reset_def created_def)

lemma buf_rescan [simp]: "buf (rescan b) = b"
  by (simp add: rescan_def)

lemma run_rescan: "\<exists>b. fold (apply_op opts) ops created = rescan b"
proof (induction ops rule: rev_induct)
  case Nil
  show ?case using rescan_Nil by (metis fold_simps(1))
next
  case (snoc op ops)
  then obtain b where b: "fold (apply_op opts) ops created = rescan b" by blast
  show ?case
  proof (cases op)
    case (Write c)
    then show ?thesis using b by (auto simp: write_chunk_def Let_def update_rescan)
  next
    case Finish
    then show ?thesis using b by auto
  next
    case Reset
    then have "fold (apply_op opts) (ops @ [op]) created = rescan []"
      by (simp add: reset_created rescan_Nil)
    then show ?thesis by blast
  qed
qed


text \<open>
  Claim C9. After any sequence of \<open>write\<close>, \<open>finish\<close> and \<open>reset\<close> calls on a new
  streaming parser, created with any options, the tracked depth, the in-string flag, the
  pending-escape flag and the started flag are exactly those of one scan of the whole
  accumulated buffer from position 0.
\<close>

theorem streaming_state_is_rescan:
  "fold (apply_op opts) ops created = rescan (buf (fold (apply_op opts) ops created))"
proof -
  obtain b where "fold (apply_op opts) ops created = rescan b"
    using run_rescan by blast
  then show ?thesis by simp
qed

subsection \<open>The partial parser returns\<close>

lemma skip_ge: "i \<le> skip s i"
  by (simp add: skip_def)

lemma digits_end_ge: "i \<le> digits_end s i"
  by (simp add: digits_end_def)

lemma digits_end_gt: "peek s i = Some c \<Longrightarrow> is_digit c \<Longrightarrow> i < digits_end s i"
  by (auto simp: digits_end_def peek_def Cons_nth_drop_Suc [symmetric] split: if_splits)

lemma parseStr_loop_ge: "parseStr_loop cs e r i = (r', j, c) \<Longrightarrow> i \<le> j"
  by (induction cs e r i rule: parseStr_loop.induct) (auto split: if_splits)

lemma parseStr_gt: "parseStr s opts i = Return (r, j) \<Longrightarrow> i < j"
  by (auto simp: parseStr_def split: prod.splits if_splits dest: parseStr_loop_ge)

lemma parseNum_gt:
  assumes "peek s i = Some c" "c = ch CHR ''-'' \<or> is_digit c"
  shows "i < snd (parseNum s opts i)"
proof -
  define i1 where "i1 = digits_end s (if peek s i = Some (ch CHR ''-'') then i + 1 else i)"
  define i2 where "i2 = (if peek s i1 = Some (ch CHR ''.'') then digits_end s (i1 + 1) else i1)"
  define i3 where "i3 =
    (if peek s i2 = Some (ch CHR ''e'') \<or> peek s i2 = Some (ch CHR ''E'') then
       digits_end s (if peek s (i2 + 1) = Some (ch CHR ''+'') \<or> peek s (i2 + 1) = Some (ch CHR ''-'')
                     then i2 + 1 + 1 else i2 + 1)
     else i2)"
  have "snd (parseNum s opts i) = i3"
    unfolding parseNum_def Let_def i3_def i2_def i1_def by simp
  moreover have "i < i1"
    using assms digits_end_gt [of s i c] digits_end_ge [of "i + 1" s]
    by (auto simp: i1_def is_digit_def)
  moreover have "i1 \<le> i2"
    using digits_end_ge [of "i1 + 1" s] by (auto simp: i2_def)
  moreover have "i2 \<le> i3"
    using digits_end_ge [of "i2 + 1" s] digits_end_ge [of "i2 + 1 + 1" s]
    by (auto simp: i3_def)
  ultimately show ?thesis by linarith
qed


definition progresses :: "nat \<Rightarrow> jsstring \<Rightarrow> merged_options \<Rightarrow> bool" where
  "progresses n s opts =
     ((\<forall>i v j. parseValue n s opts i = Some (Return (v, j)) \<longrightarrow> i < j) \<and>
      (\<forall>i v j. parseArr n s opts i = Some (Return (v, j)) \<longrightarrow> i < j) \<and>
      (\<forall>i a v j. parseArr_loop n s opts i a = Some (Return (v, j)) \<longrightarrow> i \<le> j) \<and>
      (\<forall>i v j. parseObj n s opts i = Some (Return (v, j)) \<longrightarrow> i < j) \<and>
      (\<forall>i a v j. parseObj_loop n s opts i a = Some (Return (v, j)) \<longrightarrow> i \<le> j))"

lemma progresses_0: "progresses 0 s opts"
  by (simp add: progresses_def)

lemma progresses_value:
  assumes "progresses n s opts" "parseValue (Suc n) s opts i = Some (Return (v, j))"
  shows "i < j"
proof -
  have "skip s i < j"
    using assms parseStr_gt [of s opts "skip s i"] parseNum_gt [of s "skip s i" _ opts]
    by (auto simp: progresses_def Let_def split: if_splits outcome.splits option.splits)
  then show ?thesis using skip_ge [of i s] by linarith
qed

lemma progresses_arr:
  assumes "progresses n s opts" "parseArr (Suc n) s opts i = Some (Return (v, j))"
  shows "i < j"
  using assms skip_ge [of "i + 1" s]
  by (fastforce simp: progresses_def Let_def split: if_splits)

lemma progresses_obj:
  assumes "progresses n s opts" "parseObj (Suc n) s opts i = Some (Return (v, j))"
  shows "i < j"
  using assms skip_ge [of "i + 1" s]
  by (fastforce simp: progresses_def Let_def split: if_splits)

lemma progresses_arr_loop:
  assumes "progresses n s opts" "parseArr_loop (Suc n) s opts i a = Some (Return (v, j))"
  shows "i \<le> j"
proof (cases "i < length s")
  case False
  then show ?thesis using assms by (auto split: if_splits)
next
  case True
  let ?i = "skip s i"
  have ge: "i \<le> ?i" by (rule skip_ge)
  from assms(1) have
    V: "\<And>i v j. parseValue n s opts i = Some (Return (v, j)) \<Longrightarrow> i < j" and
    L: "\<And>i a v j. parseArr_loop n s opts i a = Some (Return (v, j)) \<Longrightarrow> i \<le> j"
    by (auto simp: progresses_def)
  show ?thesis
  proof (cases "peek s ?i = Some (ch CHR '']'')")
    case True
    then show ?thesis using assms(2) \<open>i < length s\<close> ge by (simp add: Let_def)
  next
    case nclose: False
    show ?thesis
    proof (cases "peek s ?i = Some (ch CHR '','')")
      case True
      then have "parseArr_loop n s opts (?i + 1) a = Some (Return (v, j))"
        using assms(2) \<open>i < length s\<close> nclose by (simp add: Let_def)
      from L [OF this] show ?thesis using ge by linarith
    next
      case False
      then obtain w k where
        "parseValue n s opts ?i = Some (Return (w, k))"
        "parseArr_loop n s opts k (a @ [w]) = Some (Return (v, j))"
        using assms(2) \<open>i < length s\<close> nclose
        by (auto simp: Let_def split: option.splits outcome.splits)
      then show ?thesis using V [of ?i w k] L [of k "a @ [w]" v j] ge by linarith
    qed
  qed
qed

lemma progresses_obj_loop:
  assumes "progresses n s opts" "parseObj_loop (Suc n) s opts i a = Some (Return (v, j))"
  shows "i \<le> j"
proof (cases "i < length s")
  case False
  then show ?thesis using assms by (auto split: if_splits)
next
  case True
  let ?i = "skip s i"
  have ge: "i \<le> ?i" by (rule skip_ge)
  from assms(1) have
    V: "\<And>i v j. parseValue n s opts i = Some (Return (v, j)) \<Longrightarrow> i < j" and
    L: "\<And>i a v j. parseObj_loop n s opts i a = Some (Return (v, j)) \<Longrightarrow> i \<le> j"
    by (auto simp: progresses_def)
  show ?thesis
  proof (cases "peek s ?i = Some (ch CHR ''}'')")
    case True
    then show ?thesis using assms(2) \<open>i < length s\<close> ge by (simp add: Let_def)
  next
    case nclose: False
    show ?thesis
    proof (cases "peek s ?i = Some (ch CHR '','')")
      case True
      then have "parseObj_loop n s opts (?i + 1) a = Some (Return (v, j))"
        using assms(2) \<open>i < length s\<close> nclose by (simp add: Let_def)
      from L [OF this] show ?thesis using ge by linarith
    next
      case ncomma: False
      then obtain key k where key: "parseStr s opts ?i = Return (key, k)"
        using assms(2) \<open>i < length s\<close> nclose
        by (auto simp: Let_def split: outcome.splits)
      have k: "?i < k" using parseStr_gt [OF key] .
      let ?k = "skip s k"
      have k2: "k \<le> ?k" by (rule skip_ge)
      show ?thesis
      proof (cases "peek s ?k = Some (ch CHR '':'')")
        case False
        then have "j = ?k"
          using assms(2) \<open>i < length s\<close> nclose ncomma key
          by (auto simp: Let_def split: if_splits)
        then show ?thesis using ge k k2 by linarith
      next
        case True
        then obtain w m where
          "parseValue n s opts (skip s (?k + 1)) = Some (Return (w, m))"
          "parseObj_loop n s opts m (set_property key w a) = Some (Return (v, j))"
          using assms(2) \<open>i < length s\<close> nclose ncomma key
          by (auto simp: Let_def split: option.splits outcome.splits)
        then show ?thesis
          using V [of "skip s (?k + 1)" w m] L [of m "set_property key w a" v j] ge k k2
            skip_ge [of "?k + 1" s]
          by linarith
      qed
    qed
  qed
qed

lemma progresses_all: "progresses n s opts"
proof (induction n)
  case 0
  show ?case by (rule progresses_0)
next
  case (Suc n)
  show ?case
    unfolding progresses_def
    using progresses_value [OF Suc] progresses_arr [OF Suc] progresses_arr_loop [OF Suc]
      progresses_obj [OF Suc] progresses_obj_loop [OF Suc]
    by blast
qed


text \<open>The bound on the recursion that \<open>doParse\<close> starts with is never reached.\<close>

definition enough :: "nat \<Rightarrow> jsstring \<Rightarrow> merged_options \<Rightarrow> bool" where
  "enough n s opts =
     ((\<forall>i. 3 * (length s - i) + 1 \<le> n \<longrightarrow> parseValue n s opts i \<noteq> None) \<and>
      (\<forall>i. i < length s \<and> 3 * (length s - i) \<le> n \<longrightarrow> parseArr n s opts i \<noteq> None) \<and>
      (\<forall>i a. 3 * (length s - i) + 2 \<le> n \<longrightarrow> parseArr_loop n s opts i a \<noteq> None) \<and>
      (\<forall>i. i < length s \<and> 3 * (length s - i) \<le> n \<longrightarrow> parseObj n s opts i \<noteq> None) \<and>
      (\<forall>i a. 3 * (length s - i) + 2 \<le> n \<longrightarrow> parseObj_loop n s opts i a \<noteq> None))"

lemma peek_Some_less: "peek s i = Some c \<Longrightarrow> i < length s"
  by (simp add: peek_def split: if_splits)

lemma enough_value:
  assumes "enough n s opts" "3 * (length s - i) + 1 \<le> Suc n"
  shows "parseValue (Suc n) s opts i \<noteq> None"
proof -
  let ?i = "skip s i"
  have ge: "i \<le> ?i" by (rule skip_ge)
  have "parseObj n s opts ?i \<noteq> None" if "peek s ?i = Some (ch CHR ''{'')"
    using assms ge peek_Some_less [OF that] by (auto simp: enough_def)
  moreover have "parseArr n s opts ?i \<noteq> None" if "peek s ?i = Some (ch CHR ''['')"
    using assms ge peek_Some_less [OF that] by (auto simp: enough_def)
  ultimately show ?thesis
    by (auto simp: Let_def split: outcome.splits)
qed

lemma enough_arr:
  assumes "enough n s opts" "i < length s" "3 * (length s - i) \<le> Suc n"
  shows "parseArr (Suc n) s opts i \<noteq> None"
proof -
  have "parseArr_loop n s opts (skip s (i + 1)) [] \<noteq> None"
    using assms skip_ge [of "i + 1" s] by (auto simp: enough_def)
  then show ?thesis by (simp add: Let_def)
qed

lemma enough_obj:
  assumes "enough n s opts" "i < length s" "3 * (length s - i) \<le> Suc n"
  shows "parseObj (Suc n) s opts i \<noteq> None"
proof -
  have "parseObj_loop n s opts (skip s (i + 1)) [] \<noteq> None"
    using assms skip_ge [of "i + 1" s] by (auto simp: enough_def)
  then show ?thesis by (simp add: Let_def)
qed

lemma enough_arr_loop:
  assumes "enough n s opts" "3 * (length s - i) + 2 \<le> Suc n"
  shows "parseArr_loop (Suc n) s opts i a \<noteq> None"
proof (cases "i < length s")
  case False
  then show ?thesis by simp
next
  case True
  let ?i = "skip s i"
  have ge: "i \<le> ?i" by (rule skip_ge)
  from assms(1) have
    V: "\<And>i. 3 * (length s - i) + 1 \<le> n \<Longrightarrow> parseValue n s opts i \<noteq> None" and
    L: "\<And>i a. 3 * (length s - i) + 2 \<le> n \<Longrightarrow> parseArr_loop n s opts i a \<noteq> None"
    by (auto simp: enough_def)
  have comma: "parseArr_loop n s opts (?i + 1) a \<noteq> None" if "peek s ?i = Some (ch CHR '','')"
    using L [of "?i + 1" a] assms(2) ge peek_Some_less [OF that] by auto
  have val: "parseValue n s opts ?i \<noteq> None"
    using V [of ?i] assms(2) ge True by auto
  have after: "parseArr_loop n s opts k (a @ [w]) \<noteq> None"
    if "parseValue n s opts ?i = Some (Return (w, k))" for w k
  proof -
    have "?i < k" using progresses_all [of n s opts] that by (auto simp: progresses_def)
    then show ?thesis using L [of k "a @ [w]"] assms(2) ge True by auto
  qed
  show ?thesis
    using True comma val after
    by (auto simp: Let_def split: option.splits outcome.splits)
qed

lemma enough_obj_loop:
  assumes "enough n s opts" "3 * (length s - i) + 2 \<le> Suc n"
  shows "parseObj_loop (Suc n) s opts i a \<noteq> None"
proof (cases "i < length s")
  case False
  then show ?thesis by simp
next
  case True
  let ?i = "skip s i"
  have ge: "i \<le> ?i" by (rule skip_ge)
  from assms(1) have
    V: "\<And>i. 3 * (length s - i) + 1 \<le> n \<Longrightarrow> parseValue n s opts i \<noteq> None" and
    L: "\<And>i a. 3 * (length s - i) + 2 \<le> n \<Longrightarrow> parseObj_loop n s opts i a \<noteq> None"
    by (auto simp: enough_def)
  have comma: "parseObj_loop n s opts (?i + 1) a \<noteq> None" if "peek s ?i = Some (ch CHR '','')"
    using L [of "?i + 1" a] assms(2) ge peek_Some_less [OF that] by auto
  have val: "parseValue n s opts (skip s (skip s k + 1)) \<noteq> None"
    if "parseStr s opts ?i = Return (key, k)" for key k
    using V [of "skip s (skip s k + 1)"] assms(2) ge True parseStr_gt [OF that]
      skip_ge [of k s] skip_ge [of "skip s k + 1" s]
    by auto
  have after: "parseObj_loop n s opts m (set_property key w a) \<noteq> None"
    if "parseStr s opts ?i = Return (key, k)"
       "parseValue n s opts (skip s (skip s k + 1)) = Some (Return (w, m))" for key k w m
  proof -
    have "skip s (skip s k + 1) < m"
      using progresses_all [of n s opts] that(2) by (auto simp: progresses_def)
    then show ?thesis
      using L [of m "set_property key w a"] assms(2) ge True parseStr_gt [OF that(1)]
        skip_ge [of k s] skip_ge [of "skip s k + 1" s]
      by auto
  qed
  show ?thesis
    using True comma val after
    by (auto simp: Let_def split: option.splits outcome.splits)
qed

lemma enough_all: "enough n s opts"
proof (induction n)
  case 0
  show ?case by (simp add: enough_def)
next
  case (Suc n)
  show ?case
    unfolding enough_def
    using enough_value [OF Suc] enough_arr [OF Suc] enough_arr_loop [OF Suc]
      enough_obj [OF Suc] enough_obj_loop [OF Suc]
    by blast
qed

lemma doParse_returns_or_throws: "doParse s opts \<noteq> None"
proof -
  have "parseValue (3 * length s + 3) s opts 0 \<noteq> None"
    using enough_all [of "3 * length s + 3" s opts] by (auto simp: enough_def)
  then show ?thesis
    by (auto simp: doParse_def bind_comp_def split: option.splits outcome.splits)
qed


lemma parsePartial_returns: "\<exists>r. parsePartial input options = Some (Return r)"
  using doParse_returns_or_throws [of input "merge_options options"]
  by (auto simp: parsePartial_def try_comp_def bind_comp_def Let_def
           split: option.splits outcome.splits)

lemma parse_returns: "\<exists>r. parse input sch = Return r"
  by (auto simp: parse_def try_catch_def bind_outcome_def Let_def split: outcome.splits)

lemma process_returns: "schema opts = None \<Longrightarrow> \<exists>r. process opts st = Some (Return r)"
proof -
  assume "schema opts = None"
  moreover obtain r where "parsePartial (output_text (repair (the (json (extract_json (buf st))))))
                             (Some pOpts) = Some (Return r)"
    using parsePartial_returns by blast
  ultimately show ?thesis
    by (cases r) (auto simp: process_def Let_def bind_comp_def schema_check_def)
qed

subsection \<open>A streaming parser with a schema\<close>

lemma extract_json_toString:
  "json (extract_json (js ''{\"toString\":1}'')) = Some (js ''{\"toString\":1}'')"
  by (simp add: extract_defs regex_defs char_defs Let_def)

lemma repair_toString: "output_text (repair (js ''{\"toString\":1}'')) = js ''{\"toString\":1}''"
  by (simp add: repair_defs regex_defs char_defs Let_def)

lemma JSON_parse_toString:
  "JSON_parse (js ''{\"toString\":1}'') = Return (JObj [(js ''toString'', JNum (js ''1''))])"
  by (simp add: json_eval)

lemma write_toString:
  "fst (write_chunk opts (js ''{\"toString\":1}'') created)
     = \<lparr>buf = js ''{\"toString\":1}'', depth = 0, inStr = False, esc = False, started = True\<rparr>"
  by (simp add: stream_defs js_def Let_def)

lemma validate_toString:
  "validate (JObj [(js ''toString'', JNum (js ''1''))]) (LiteralSchema (L_string (js ''x'')))
     = Throw TypeError"
  by (simp add: validate_def)

text \<open>
  Claim C1 fails on the code: on a streaming parser created with the schema
  \<open>{type: 'literal', value: 'x'}\<close>, \<open>write('{"toString":1}')\<close> throws a
  \<open>TypeError\<close>, and so does \<open>finish()\<close> after it. The chunk is strict JSON;
  \<open>validate\<close> builds its error with \<open>String(d)\<close>, which throws for an object with an
  own property \<open>toString\<close>, and \<open>process\<close> calls \<open>validate\<close> outside any
  \<open>try\<close> block. \<open>parse\<close> with the same schema catches the exception and returns a
  failure.
\<close>

theorem write_with_schema_throws:
  "JSON_parse (js ''{\"toString\":1}'') = Return (JObj [(js ''toString'', JNum (js ''1''))]) \<and>
   snd (write_chunk \<lparr>schema = Some (LiteralSchema (L_string (js ''x'')))\<rparr>
          (js ''{\"toString\":1}'') created)
     = Some (Throw TypeError) \<and>
   finish \<lparr>schema = Some (LiteralSchema (L_string (js ''x'')))\<rparr>
     (fst (write_chunk \<lparr>schema = Some (LiteralSchema (L_string (js ''x'')))\<rparr>
             (js ''{\"toString\":1}'') created))
     = Some (Throw TypeError) \<and>
   parse (js ''{\"toString\":1}'') (Some (LiteralSchema (L_string (js ''x''))))
     = Return (Failure \<lparr>code = invalid_json, message = Engine_message,
                        error_context = None\<rparr> None)"
proof -
  let ?opts = "\<lparr>schema = Some (LiteralSchema (L_string (js ''x'')))\<rparr>"
  let ?st = "\<lparr>buf = js ''{\"toString\":1}'', depth = 0, inStr = False, esc = False,
               started = True\<rparr>"
  have ne: "js ''{\"toString\":1}'' \<noteq> []" by (simp add: js_def)
  have p: "process ?opts ?st = Some (Throw TypeError)"
    using extract_json_toString repair_toString JSON_parse_toString validate_toString ne
    by (simp add: process_def Let_def parsePartial_def try_comp_def bind_comp_def
          schema_check_def)
  have w: "write_chunk ?opts (js ''{\"toString\":1}'') created = (?st, process ?opts ?st)"
    using write_toString [of ?opts] by (simp add: write_chunk_def Let_def)
  have "parse (js ''{\"toString\":1}'') (Some (LiteralSchema (L_string (js ''x''))))
     = Return (Failure \<lparr>code = invalid_json, message = Engine_message,
                        error_context = None\<rparr> None)"
    using extract_json_toString repair_toString JSON_parse_toString validate_toString ne
    by (simp add: parse_def Let_def try_catch_def bind_outcome_def schema_check_def)
  then show ?thesis
    using p w JSON_parse_toString by (simp add: finish_def)
qed

subsection \<open>Strict input\<close>

lemma JSON_parse_empty: "JSON_parse [] = Throw SyntaxError"
  by (simp add: JSON_parse_def eval_nat_numeral)

text \<open>
  Claim C10. On an input that \<open>JSON.parse\<close> accepts, \<open>parsePartial\<close> returns
  \<open>Success\<close> with exactly the value of the strict parse, whatever the options are.
\<close>

theorem parsePartial_strict:
  "JSON_parse input = Return v \<Longrightarrow> parsePartial input options = Some (Return (Success v None))"
  using JSON_parse_empty
  by (auto simp: parsePartial_def try_comp_def bind_comp_def)

lemma JSON_parse_a1:
  "JSON_parse (js ''{\"a\":1}'') = Return (JObj [(js ''a'', JNum (js ''1''))])"
  by (simp add: json_defs char_defs eval_nat_numeral)

text \<open>Witness for C10: a strict input, with the flags set against their defaults.\<close>

theorem parsePartial_strict_witness:
  "JSON_parse (js ''{\"a\":1}'') = Return (JObj [(js ''a'', JNum (js ''1''))]) \<and>
   parsePartial (js ''{\"a\":1}'')
     (Some \<lparr>allowPartialStrings = Some False, allowPartialObjects = Some False,
            allowPartialArrays = Some False, allowPartialNumbers = Some True\<rparr>)
     = Some (Return (Success (JObj [(js ''a'', JNum (js ''1''))]) None))"
  using parsePartial_strict [OF JSON_parse_a1] JSON_parse_a1 by simp

subsection \<open>finish\<close>

text \<open>
  Claim C6, as amended. In every state of a streaming parser, whatever its options are,
  \<open>finish\<close> fails with
  \<open>no_json_found\<close> when no opening bracket was seen, and fails with \<open>truncated\<close> when
  one was seen and the tracked depth is greater than 0 or the in-string flag is set.
\<close>

theorem finish_failures:
  "(\<not> started st \<longrightarrow>
      finish opts st = Some (Return (Failure \<lparr>code = no_json_found,
                                              message = Text (js ''No JSON found''),
                                              error_context = None\<rparr> None))) \<and>
   (started st \<and> (0 < depth st \<or> inStr st) \<longrightarrow>
      finish opts st = Some (Return (Failure \<lparr>code = truncated,
                                              message = Text (js ''Incomplete JSON''),
                                              error_context = None\<rparr> None)))"
  by (simp add: finish_def)

lemma write_open_brace:
  "fst (write_chunk opts (js ''{'') created)
     = \<lparr>buf = js ''{'', depth = 1, inStr = False, esc = False, started = True\<rparr>"
  by (simp add: stream_defs js_def Let_def)

text \<open>Witness for C6: a new parser, and a parser after the chunk \<open>{\<close>.\<close>

theorem finish_failures_witness:
  "\<not> started created \<and>
   finish no_options created
     = Some (Return (Failure \<lparr>code = no_json_found, message = Text (js ''No JSON found''),
                              error_context = None\<rparr> None)) \<and>
   started (fst (write_chunk no_options (js ''{'') created)) \<and>
   0 < depth (fst (write_chunk no_options (js ''{'') created)) \<and>
   finish no_options (fst (write_chunk no_options (js ''{'') created))
     = Some (Return (Failure \<lparr>code = truncated, message = Text (js ''Incomplete JSON''),
                              error_context = None\<rparr> None))"
  using finish_failures [of created no_options]
    finish_failures [of "fst (write_chunk no_options (js ''{'') created)" no_options]
  by (simp add: write_open_brace) (simp add: created_def)


subsection \<open>Evaluations\<close>

lemma extract_json_braces: "json (extract_json (js ''{}}'')) = Some (js ''{}'')"
  by (simp add: extract_defs regex_defs char_defs Let_def)

lemma repair_braces: "output_text (repair (js ''{}'')) = js ''{}''"
  by (simp add: repair_defs regex_defs char_defs Let_def)

lemma JSON_parse_braces: "JSON_parse (js ''{}'') = Return (JObj [])"
  by (simp add: json_eval)

lemma write_braces:
  "fst (write_chunk opts (js ''{}}'') created)
     = \<lparr>buf = js ''{}}'', depth = - 1, inStr = False, esc = False, started = True\<rparr>"
  by (simp add: stream_defs js_def Let_def)

text \<open>
  Counterexample to C6 as stated: after the chunk \<open>{}}\<close> an opening bracket was seen and
  the depth is \<open>-1\<close>, not 0, yet \<open>finish\<close> returns \<open>Success\<close>: the guard of
  \<open>finish\<close> is \<open>depth > 0\<close>.
\<close>

theorem finish_negative_depth_counterexample:
  "started (fst (write_chunk no_options (js ''{}}'') created)) \<and>
   depth (fst (write_chunk no_options (js ''{}}'') created)) \<noteq> 0 \<and>
   finish no_options (fst (write_chunk no_options (js ''{}}'') created))
     = Some (Return (Success (JObj []) None))"
proof -
  have "process no_options
          \<lparr>buf = js ''{}}'', depth = - 1, inStr = False, esc = False, started = True\<rparr>
          = Some (Return (Success (JObj []) None))"
    using extract_json_braces repair_braces JSON_parse_braces
    by (simp add: process_def Let_def parsePartial_def try_comp_def bind_comp_def
          no_options_def schema_check_def)
      (simp add: js_def)
  then show ?thesis
    by (simp add: write_braces finish_def)
qed

lemma repairPass_1_True: "repairPass (js ''[1,True]'') [] = (js ''[1,]'', [])"
  by (simp add: repair_defs char_defs Let_def)

lemma JSON_parse_1: "JSON_parse (js ''[1]'') = Return (JArr [JNum (js ''1'')])"
  by (simp add: json_eval)

text \<open>
  Claim C8 fails on the code: in \<open>[1,True]\<close> the bare \<open>True\<close> after the comma is
  consumed by the key scan of \<open>repairPass\<close> and dropped, not replaced by \<open>true\<close>, and
  no \<open>python_literal_converted\<close> warning is emitted.
\<close>

theorem repair_1_True:
  "repair (js ''[1,True]'')
     = \<lparr>output_text = js ''[1]'', warnings = [Warning trailing_comma_removed []], valid = True\<rparr>"
proof -
  have "replaceAll re_block_comment (replaceAll re_line_comment
          (replaceAll re_fence_end (replaceAll re_fence_open (trim (js ''[1,True]'')))))
        = js ''[1,True]''"
    by (simp add: trim_def regex_defs char_defs)
  moreover have "replaceAll re_trailing_comma (js ''[1,]'') = js ''[1]''"
    by (simp add: regex_defs char_defs)
  moreover have "replaceAll re_double_comma (js ''[1]'') = js ''[1]''"
    by (simp add: regex_defs char_defs)
  moreover have "js ''[1,True]'' \<noteq> []" "js ''[1,]'' \<noteq> js ''[1]''"
    by (simp_all add: js_def)
  ultimately show ?thesis
    using repairPass_1_True JSON_parse_1
    by (simp add: repair_def Let_def returns_def)
qed

lemma JSON_parse_note: "JSON_parse (js ''{\"note\": \"see '') = Throw SyntaxError"
  by (simp add: json_eval)

text \<open>
  Claim C7 fails on the code: in \<open>{"note": "see // it's"}\<close> the double-quoted string
  \<open>see // it's\<close> holds an apostrophe, and \<open>repair\<close> removes everything from
  \<open>//\<close> to the end of the line before it looks at quotes: the content of the string is
  cut after \<open>see \<close>, and the apostrophe is gone.
\<close>

theorem repair_comment_in_string:
  "repair (js ''{\"note\": \"see // it's\"}'')
     = \<lparr>output_text = js ''{\"note\": \"see '', warnings = [], valid = False\<rparr>"
proof -
  have "replaceAll re_block_comment (replaceAll re_line_comment
          (replaceAll re_fence_end (replaceAll re_fence_open
             (trim (js ''{\"note\": \"see // it's\"}'')))))
        = js ''{\"note\": \"see ''"
    by (simp add: trim_def regex_defs char_defs)
  moreover have "repairPass (js ''{\"note\": \"see '') [] = (js ''{\"note\": \"see '', [])"
    by (simp add: repair_defs char_defs Let_def)
  moreover have "replaceAll re_trailing_comma (js ''{\"note\": \"see '') = js ''{\"note\": \"see ''"
    by (simp add: regex_defs char_defs)
  moreover have "replaceAll re_double_comma (js ''{\"note\": \"see '') = js ''{\"note\": \"see ''"
    by (simp add: regex_defs char_defs)
  moreover have "js ''{\"note\": \"see // it's\"}'' \<noteq> []"
    by (simp add: js_def)
  ultimately show ?thesis
    using JSON_parse_note by (simp add: repair_def Let_def returns_def)
qed

lemma JSON_parse_commas2: "JSON_parse (js ''[\",,\"]'') = Return (JArr [JStr (js '',,'')])"
  by (simp add: json_eval)

lemma JSON_parse_commas1: "JSON_parse (js ''[\",\"]'') = Return (JArr [JStr (js '','')])"
  by (simp add: json_eval)

lemma repair_commas3:
  "repair (js ''[\",,,\"]'') = \<lparr>output_text = js ''[\",,\"]'', warnings = [], valid = True\<rparr>"
proof -
  have "replaceAll re_block_comment (replaceAll re_line_comment
          (replaceAll re_fence_end (replaceAll re_fence_open (trim (js ''[\",,,\"]'')))))
        = js ''[\",,,\"]''"
    by (simp add: trim_def regex_defs char_defs)
  moreover have "repairPass (js ''[\",,,\"]'') [] = (js ''[\",,,\"]'', [])"
    by (simp add: repair_defs char_defs Let_def)
  moreover have "replaceAll re_trailing_comma (js ''[\",,,\"]'') = js ''[\",,,\"]''"
    by (simp add: regex_defs char_defs)
  moreover have "replaceAll re_double_comma (js ''[\",,,\"]'') = js ''[\",,\"]''"
    by (simp add: regex_defs char_defs)
  moreover have "js ''[\",,,\"]'' \<noteq> []"
    by (simp add: js_def)
  ultimately show ?thesis
    using JSON_parse_commas2 by (simp add: repair_def Let_def returns_def)
qed

lemma repair_commas2:
  "repair (js ''[\",,\"]'') = \<lparr>output_text = js ''[\",\"]'', warnings = [], valid = True\<rparr>"
proof -
  have "replaceAll re_block_comment (replaceAll re_line_comment
          (replaceAll re_fence_end (replaceAll re_fence_open (trim (js ''[\",,\"]'')))))
        = js ''[\",,\"]''"
    by (simp add: trim_def regex_defs char_defs)
  moreover have "repairPass (js ''[\",,\"]'') [] = (js ''[\",,\"]'', [])"
    by (simp add: repair_defs char_defs Let_def)
  moreover have "replaceAll re_trailing_comma (js ''[\",,\"]'') = js ''[\",,\"]''"
    by (simp add: regex_defs char_defs)
  moreover have "replaceAll re_double_comma (js ''[\",,\"]'') = js ''[\",\"]''"
    by (simp add: regex_defs char_defs)
  moreover have "js ''[\",,\"]'' \<noteq> []"
    by (simp add: js_def)
  ultimately show ?thesis
    using JSON_parse_commas1 by (simp add: repair_def Let_def returns_def)
qed

text \<open>
  Claim C4 fails on the code: the output of \<open>repair\<close> on \<open>[",,,"]\<close> is
  \<open>[",,"]\<close>, which is strict JSON, and \<open>repair\<close> on that output gives
  \<open>[","]\<close>. The replacement of \<open>,\s*,\<close> by one comma also applies inside a string
  literal, and one pass does not exhaust it.
\<close>

theorem repair_not_idempotent:
  "valid (repair (js ''[\",,,\"]'')) \<and>
   output_text (repair (js ''[\",,,\"]'')) = js ''[\",,\"]'' \<and>
   output_text (repair (output_text (repair (js ''[\",,,\"]'')))) = js ''[\",\"]'' \<and>
   js ''[\",\"]'' \<noteq> js ''[\",,\"]''"
  using repair_commas3 repair_commas2 by (simp add: js_def)

lemma extract_json_12: "json (extract_json (js ''[1,2]'')) = Some (js ''[1,2]'')"
  by (simp add: extract_defs regex_defs char_defs Let_def)

lemma repair_12: "output_text (repair (js ''[1,2]'')) = js ''[1,\"2\"]''"
  by (simp add: repair_defs regex_defs char_defs Let_def)

lemma JSON_parse_12: "JSON_parse (js ''[1,2]'') = Return (JArr [JNum (js ''1''), JNum (js ''2'')])"
  by (simp add: json_eval)

lemma JSON_parse_1q2:
  "JSON_parse (js ''[1,\"2\"]'') = Return (JArr [JNum (js ''1''), JStr (js ''2'')])"
  by (simp add: json_eval)

lemma writes_12:
  "fold (\<lambda>c st. fst (write_chunk opts [c] st)) (js ''[1,2]'') created
     = \<lparr>buf = js ''[1,2]'', depth = 0, inStr = False, esc = False, started = True\<rparr>"
  by (simp add: stream_defs js_def Let_def)

text \<open>
  Claim C2 fails on the code: the serialization \<open>[1,2]\<close>, written one character at
  a time, finishes with the array of the number 1 and the string \<open>"2"\<close>, while
  \<open>parse\<close> gives the array of the numbers 1 and 2: the streaming parser repairs before it
  parses, and \<open>repair\<close> quotes the \<open>2\<close> after the comma as a key.
\<close>

theorem streaming_array_of_numbers:
  "JSON_parse (js ''[1,2]'') = Return (JArr [JNum (js ''1''), JNum (js ''2'')]) \<and>
   parse (js ''[1,2]'') None
     = Return (Success (JArr [JNum (js ''1''), JNum (js ''2'')]) None) \<and>
   finish no_options (fold (\<lambda>c st. fst (write_chunk no_options [c] st)) (js ''[1,2]'') created)
     = Some (Return (Success (JArr [JNum (js ''1''), JStr (js ''2'')]) None))"
proof -
  have "parse (js ''[1,2]'') None
          = Return (Success (JArr [JNum (js ''1''), JNum (js ''2'')]) None)"
    using extract_json_12 JSON_parse_12
    by (simp add: parse_def Let_def try_catch_def bind_outcome_def schema_check_def)
      (simp add: js_def)
  moreover have
    "process no_options
       \<lparr>buf = js ''[1,2]'', depth = 0, inStr = False, esc = False, started = True\<rparr>
       = Some (Return (Success (JArr [JNum (js ''1''), JStr (js ''2'')]) None))"
    using extract_json_12 repair_12 JSON_parse_1q2
    by (simp add: process_def Let_def parsePartial_def try_comp_def bind_comp_def
          no_options_def schema_check_def)
      (simp add: js_def)
  ultimately show ?thesis
    using JSON_parse_12 by (simp add: writes_12 finish_def)
qed

lemma JSON_parse_a_colon: "JSON_parse (js ''{\"a\":'') = Throw SyntaxError"
  by (simp add: json_eval)

lemma doParse_a_colon:
  "doParse (js ''{\"a\":'') (merge_options (Some all_partial))
     = Some (Throw (Error (js ''Unexpected token at 5'')))"
  by (simp add: partial_eval all_partial_def)

text \<open>
  Counterexample to C5 as stated: \<open>{"a":\<close> is the prefix of the strict text
  \<open>{"a":1}\<close> that ends with the colon token, and \<open>parsePartial\<close> with every flag set
  fails on it.
\<close>

theorem parsePartial_after_colon_counterexample:
  "JSON_parse (js ''{\"a\":1}'') = Return (JObj [(js ''a'', JNum (js ''1''))]) \<and>
   take 5 (js ''{\"a\":1}'') = js ''{\"a\":'' \<and>
   parsePartial (js ''{\"a\":'') (Some all_partial)
     = Some (Return (Failure \<lparr>code = truncated, message = Text (js ''Unexpected token at 5''),
                              error_context = None\<rparr>
                       (Some \<lparr>confidence = medium, complete = JObj [], pending = []\<rparr>)))"
proof -
  have "parsePartial (js ''{\"a\":'') (Some all_partial)
     = Some (Return (Failure \<lparr>code = truncated, message = Text (js ''Unexpected token at 5''),
                              error_context = None\<rparr>
                       (Some \<lparr>confidence = medium, complete = JObj [], pending = []\<rparr>)))"
    using JSON_parse_a_colon doParse_a_colon
    by (simp add: parsePartial_def try_comp_def bind_comp_def Let_def) (simp add: js_def)
  then show ?thesis
    using JSON_parse_a1 by (simp add: js_def)
qed

subsection \<open>The shape of strict JSON text\<close>











lemma list_all_takeWhile [simp]: "list_all P (takeWhile P xs)"
  by (induction xs) auto








lemma literal_split: "take k s = l \<Longrightarrow> length l = k \<Longrightarrow> s = l @ drop k s"
  by (metis append_take_drop_id)






subsection \<open>findJson over strict JSON text\<close>



text \<open>
  \<open>fj_plain x\<close>: outside a string, at any depth, the loop passes over \<open>x\<close> and leaves
  its variables as they were. \<open>fj_skips x\<close>: the same at a depth of at least 1.
\<close>

definition fj_plain :: "jsstring \<Rightarrow> bool" where
  "fj_plain x =
     (\<forall>pre rest all st. \<not> f_inStr st \<longrightarrow> \<not> f_esc st \<longrightarrow>
        findJson_loop (pre @ x @ rest) all (length pre) st
          = findJson_loop (pre @ x @ rest) all (length pre + length x) st)"

definition fj_skips :: "jsstring \<Rightarrow> bool" where
  "fj_skips x =
     (\<forall>pre rest all st. \<not> f_inStr st \<longrightarrow> \<not> f_esc st \<longrightarrow> 1 \<le> f_depth st \<longrightarrow>
        findJson_loop (pre @ x @ rest) all (length pre) st
          = findJson_loop (pre @ x @ rest) all (length pre + length x) st)"


lemma fj_plain_Nil [simp]: "fj_plain []"
  by (simp add: fj_plain_def)

lemma fj_skips_Nil [simp]: "fj_skips []"
  by (simp add: fj_skips_def)






lemma find_state_same [simp]:
  "\<not> f_esc st \<Longrightarrow> st\<lparr>f_esc := False\<rparr> = st"
  "\<not> f_inStr st \<Longrightarrow> st\<lparr>f_inStr := False\<rparr> = st"
  "f_depth st = d \<Longrightarrow> st\<lparr>f_depth := d\<rparr> = st"
  by (cases st; simp)+





















lemma is_open_simps [simp]: "is_open 123" "is_open 91"
  by (simp_all add: is_open_def)

lemma is_close_simps [simp]: "is_close 125" "is_close 93"
  by (simp_all add: is_close_def)












subsection \<open>stripMd\<close>

lemma re_md_fence_no_tick: "c \<noteq> backtick \<Longrightarrow> re_md_fence (c # cs) = None"
  by (auto simp: re_md_fence_def fence_def)

lemma replaceAll_no_tick: "backtick \<notin> set s \<Longrightarrow> replaceAll re_md_fence s = s"
  by (induction s) (simp_all add: re_md_fence_no_tick)

lemma replaceAll_prefix_no_tick:
  "backtick \<notin> set p \<Longrightarrow> replaceAll re_md_fence (p @ s) = p @ replaceAll re_md_fence s"
  by (induction p) (simp_all add: re_md_fence_no_tick)

lemma trim_around:
  assumes "x \<noteq> []" "\<not> is_space (hd x)" "\<not> is_space (last x)"
  shows "trim (p @ x @ q) = dropWhile is_space p @ x @ rev (dropWhile is_space (rev q))"
proof -
  obtain a y where x: "x = a # y" using assms(1) by (cases x) auto
  obtain y' z where x': "x = y' @ [z]" using assms(1) by (cases x rule: rev_cases) auto
  have a: "\<not> is_space a" using assms(2) x by simp
  have z: "\<not> is_space z" using assms(3) x' by simp
  have "dropWhile is_space (p @ x @ q) = dropWhile is_space p @ x @ q"
    using a x by (simp add: dropWhile_append3)
  moreover have "dropWhile is_space (rev (dropWhile is_space p @ x @ q))
                   = dropWhile is_space (rev q) @ rev x @ rev (dropWhile is_space p)"
    using z x' by (simp add: dropWhile_append3)
  ultimately show ?thesis by (simp add: trim_def)
qed

lemma until_fence_no_tick:
  assumes "backtick \<notin> set x" "x \<noteq> []" "last x \<noteq> newline"
  shows "until_fence (x @ fence @ q) = Some (x, q)"
    and "until_fence (x @ newline # fence @ q) = Some (x, q)"
  using assms
proof (induction x)
  case Nil
  { case 1 then show ?case by simp next case 2 then show ?case by simp }
next
  case (Cons c x)
  {
    case 1
    show ?case
    proof (cases "x = []")
      case True
      with 1 show ?thesis by (auto simp: fence_def)
    next
      case False
      with 1 Cons.IH(1) have "until_fence (x @ fence @ q) = Some (x, q)" by simp
      moreover have "take 3 (x @ fence @ q) \<noteq> fence"
        using False 1 by (cases x) (auto simp: fence_def)
      ultimately show ?thesis using 1 by (auto simp: fence_def)
    qed
  next
    case 2
    show ?case
    proof (cases "x = []")
      case True
      with 2 show ?thesis by (auto simp: fence_def)
    next
      case False
      with 2 Cons.IH(2) have "until_fence (x @ newline # fence @ q) = Some (x, q)" by simp
      moreover have "take 3 (x @ newline # fence @ q) \<noteq> fence"
        using False 2 by (cases x) (auto simp: fence_def)
      ultimately show ?thesis using 2 by (auto simp: fence_def)
    qed
  }
qed


lemma dropWhile_spaces:
  "list_all is_space ws \<Longrightarrow> x \<noteq> [] \<Longrightarrow> \<not> is_space (hd x) \<Longrightarrow>
   dropWhile is_space (ws @ x @ q) = x @ q"
  by (induction ws) (auto simp: neq_Nil_conv)

lemma re_md_fence_fenced:
  assumes tag: "tag = [] \<or> tag = js ''json''" and ws: "list_all is_space ws"
    and nl: "nl = [] \<or> nl = [newline]"
    and x: "backtick \<notin> set x" "x \<noteq> []" "is_open (hd x)" "is_close (last x)"
  shows "re_md_fence (fence @ tag @ ws @ x @ nl @ fence @ q) = Some (x, q)"
proof -
  have hd: "\<not> is_space (hd x)" "hd x \<noteq> ch CHR ''j''"
    using x(3) by (auto simp: is_open_def is_space_def)
  have last: "last x \<noteq> newline" using x(4) by (auto simp: is_close_def)
  have until: "until_fence (x @ nl @ fence @ q) = Some (x, q)"
    using nl until_fence_no_tick [OF x(1,2) last] by auto
  have tail: "dropWhile is_space (ws @ x @ nl @ fence @ q) = x @ nl @ fence @ q"
    using dropWhile_spaces [OF ws x(2) hd(1)] by simp
  show ?thesis
  proof (cases "tag = []")
    case False
    with tag have "tag = js ''json''" by simp
    then show ?thesis
      using until tail by (simp add: re_md_fence_def fence_def js_def)
  next
    case True
    have "take 4 (ws @ x @ nl @ fence @ q) \<noteq> js ''json''"
    proof (cases ws)
      case Nil
      then show ?thesis using x(2) hd(2) by (cases x) (auto simp: js_def)
    next
      case (Cons c cs)
      then show ?thesis using ws by (auto simp: js_def is_space_def)
    qed
    then show ?thesis
      using True until tail by (simp add: re_md_fence_def fence_def)
  qed
qed

text \<open>
  Two shapes of text for which \<open>stripMd\<close> gives the value between two pieces of prose:
  a text without backticks, and a value in a fence with or without the tag \<open>json\<close>.
\<close>

lemma stripMd_plain:
  assumes "backtick \<notin> set (p @ x @ q)" "x \<noteq> []" "\<not> is_space (hd x)" "\<not> is_space (last x)"
  shows "stripMd (p @ x @ q) = dropWhile is_space p @ x @ rev (dropWhile is_space (rev q))"
  using assms by (simp add: stripMd_def replaceAll_no_tick trim_around)

lemma stripMd_fenced:
  assumes tag: "tag = [] \<or> tag = js ''json''" and ws: "list_all is_space ws"
    and nl: "nl = [] \<or> nl = [newline]"
    and nt: "backtick \<notin> set (p @ x @ q)" and x: "x \<noteq> []" "is_open (hd x)" "is_close (last x)"
  shows "stripMd (p @ fence @ tag @ ws @ x @ nl @ fence @ q)
           = dropWhile is_space p @ x @ rev (dropWhile is_space (rev q))"
proof -
  have m: "re_md_fence (fence @ tag @ ws @ x @ nl @ fence @ q) = Some (x, q)"
    using re_md_fence_fenced [OF tag ws nl _ x] nt by simp
  have "replaceAll re_md_fence (fence @ tag @ ws @ x @ nl @ fence @ q)
          = x @ replaceAll re_md_fence q"
    using m by (simp add: fence_def)
  then have "replaceAll re_md_fence (p @ fence @ tag @ ws @ x @ nl @ fence @ q) = p @ x @ q"
    using nt by (simp add: replaceAll_prefix_no_tick replaceAll_no_tick)
  moreover have "\<not> is_space (hd x)" "\<not> is_space (last x)"
    using x(2,3) by (auto simp: is_open_def is_close_def is_space_def)
  ultimately show ?thesis
    using x(1) by (simp add: stripMd_def trim_around)
qed








end
